theory Spec2Isabelle
  imports Complex_Main "HOL-Library.Log_Nat"
begin

section \<open>Adams-Bashforth / Adams-Moulton predictor-corrector steps\<close>

text \<open>
  The repository holds three C files, for 12, 16 and 20 steps. Apart from the two
  coefficient arrays, the constant \<^verbatim>\<open>divisor\<close> and the routine names, the three
  files are the same text, so the routines are embedded once, over a coefficient
  table \<open>c\<close>, and instantiated three times at the end of this section.

  Numbers. A C \<^verbatim>\<open>double\<close> is a value of a type \<open>'a\<close> on which only the operations
  the code uses are assumed to exist (\<open>0\<close>, \<open>1\<close>, \<open>+\<close>, \<open>-\<close>, \<open>*\<close>, \<open>\<bar>_\<bar>\<close>, \<open><\<close>):
  the sorts below are the syntactic classes, which carry no law. What is proved at that
  generality uses no property of the arithmetic (no associativity, no exactness), so it
  holds for IEEE doubles as it does for the reals. The three tables are given over
  \<open>real\<close>, each literal as the integer it denotes. The doubles themselves, with
  rounding, the two infinities and NaN, are the type \<open>binary64\<close> at the end of this
  section, an instance of the same syntactic classes.

  Arrays. \<^verbatim>\<open>double f_history[]\<close> is a list; the code indexes it without a check, and the
  theorems about it assume the length the documentation asks for. The two-cell array
  \<^verbatim>\<open>y[]\<close> of the stepping routines is the pair \<open>(y[0], y[1])\<close>; the arrays and the
  cell \<^verbatim>\<open>*y_bashforth\<close> are taken to be disjoint.

  Integers. Loop counters that only count up from 0 against \<^verbatim>\<open>STEPS\<close> are \<open>nat\<close>. The
  iteration budget and the counter of the corrector are \<open>int\<close>, and the one sum that can
  leave the 32 bits of a C \<^verbatim>\<open>int\<close>, the value returned, is wrapped around.
\<close>

subsection \<open>Coefficient tables\<close>

record 'a coeffs =
  bashforth :: "'a list"
  moulton :: "'a list"
  divisor :: 'a

text \<open>\<^verbatim>\<open>#define STEPS sizeof(bashforth)/sizeof(bashforth[0])\<close>\<close>

definition STEPS :: "'a coeffs \<Rightarrow> nat" where
  "STEPS c = length (bashforth c)"

subsection \<open>The convergence test\<close>

text \<open>
  \<^verbatim>\<open>if ( fabs(y0) > 1.0 && fabs(y1) > 1.0 ) epsilon *= fabs(y1);
  if ( fabs(y0 - y1) < epsilon ) return 1;
  return 0;\<close>
\<close>

definition hasConverged :: "'a::{one,minus,times,abs,ord} \<Rightarrow> 'a \<Rightarrow> 'a \<Rightarrow> int" where
  "hasConverged y0 y1 epsilon =
     (let epsilon = (if \<bar>y0\<bar> > 1 \<and> \<bar>y1\<bar> > 1 then epsilon * \<bar>y1\<bar> else epsilon)
      in if \<bar>y0 - y1\<bar> < epsilon then 1 else 0)"

subsection \<open>The predictor\<close>

text \<open>
  \<^verbatim>\<open>double delta = 0.0;  int i;  int n = STEPS - 1;
  for (i = 0; i < STEPS; i++, n--) delta += bashforth[i] * f_history[n];
  return y + h * divisor * delta;\<close>

  The loop is the function below on \<open>(i, n, delta)\<close>; \<open>n\<close> is an \<open>int\<close> because it ends
  at \<open>-1\<close>.
\<close>

function Adams_Bashforth_loop ::
  "'a::{plus,times} coeffs \<Rightarrow> 'a list \<Rightarrow> nat \<Rightarrow> int \<Rightarrow> 'a \<Rightarrow> 'a" where
  "Adams_Bashforth_loop c f_history i n delta =
     (if i < STEPS c
      then Adams_Bashforth_loop c f_history (i + 1) (n - 1)
             (delta + bashforth c ! i * f_history ! nat n)
      else delta)"
  by pat_completeness auto
termination
  by (relation "measure (\<lambda>(c, f_history, i, n, delta). STEPS c - i)") auto

declare Adams_Bashforth_loop.simps [simp del]

definition Adams_Bashforth_Steps ::
  "'a::{zero,plus,times} coeffs \<Rightarrow> 'a \<Rightarrow> 'a \<Rightarrow> 'a list \<Rightarrow> 'a" where
  "Adams_Bashforth_Steps c y h f_history =
     y + h * divisor c * Adams_Bashforth_loop c f_history 0 (int (STEPS c) - 1) 0"

subsection \<open>The corrector\<close>

text \<open>
  \<^verbatim>\<open>double old_estimate;  double delta = 0.0;  int i;  int n = STEPS - 2;
  for (i = 1; i < STEPS; i++, n--) delta += moulton[i] * f_history[n];
  for (i = 0; i < iterations; i++) {
     old_estimate = y[1];
     y[1] = y[0] + h * divisor * ( moulton[0] * (*f)(x, y[1]) + delta );
     if ( hasConverged(old_estimate, y[1], tolerance) ) break;
  }
  return i+1;\<close>
\<close>

function Adams_Moulton_delta_loop ::
  "'a::{plus,times} coeffs \<Rightarrow> 'a list \<Rightarrow> nat \<Rightarrow> int \<Rightarrow> 'a \<Rightarrow> 'a" where
  "Adams_Moulton_delta_loop c f_history i n delta =
     (if i < STEPS c
      then Adams_Moulton_delta_loop c f_history (i + 1) (n - 1)
             (delta + moulton c ! i * f_history ! nat n)
      else delta)"
  by pat_completeness auto
termination
  by (relation "measure (\<lambda>(c, f_history, i, n, delta). STEPS c - i)") auto

declare Adams_Moulton_delta_loop.simps [simp del]

text \<open>
  The state of the second loop: the counter \<open>i\<close>, the cell \<open>y[1]\<close>, and a count of the
  calls \<^verbatim>\<open>(*f)(...)\<close> made so far. The count is not a variable of the C code: it records
  how often the text \<^verbatim>\<open>(*f)\<close> is executed.
\<close>

record 'a corrector_state =
  cs_i :: int
  cs_y1 :: 'a
  cs_calls :: nat

function Adams_Moulton_iterate ::
  "'a::{one,plus,minus,times,abs,ord} coeffs \<Rightarrow> ('a \<Rightarrow> 'a \<Rightarrow> 'a) \<Rightarrow> 'a \<Rightarrow> 'a \<Rightarrow> 'a \<Rightarrow> 'a \<Rightarrow> 'a \<Rightarrow>
     int \<Rightarrow> 'a corrector_state \<Rightarrow> 'a corrector_state" where
  "Adams_Moulton_iterate c f y0 x h delta tolerance iterations s =
     (if cs_i s < iterations
      then let old_estimate = cs_y1 s;
               y1 = y0 + h * divisor c * (moulton c ! 0 * f x (cs_y1 s) + delta);
               calls = Suc (cs_calls s)
           in if hasConverged old_estimate y1 tolerance \<noteq> 0
              then \<lparr>cs_i = cs_i s, cs_y1 = y1, cs_calls = calls\<rparr>
              else Adams_Moulton_iterate c f y0 x h delta tolerance iterations
                     \<lparr>cs_i = cs_i s + 1, cs_y1 = y1, cs_calls = calls\<rparr>
      else s)"
  by pat_completeness auto
termination
  by (relation "measure (\<lambda>(c, f, y0, x, h, delta, tolerance, iterations, s).
                   nat (iterations - cs_i s))") auto

declare Adams_Moulton_iterate.simps [simp del]

text \<open>
  \<^verbatim>\<open>return i+1;\<close> is an addition of C \<^verbatim>\<open>int\<close>s, which have 32 bits. Inside the loop
  \<open>i < iterations\<close> holds before \<^verbatim>\<open>i++\<close>, so the counter never leaves the range of an
  \<^verbatim>\<open>int\<close> as long as \<open>iterations\<close> is one. The sum \<open>i + 1\<close> after the loop does, when the
  loop ends with \<open>i = INT_MAX\<close>: the C standard leaves the result undefined, the compilers
  in use wrap it around to \<open>INT_MIN\<close>, and so does \<open>wrap_int\<close>.
\<close>

definition wrap_int :: "int \<Rightarrow> int" where
  "wrap_int z = (z + 2147483648) mod 4294967296 - 2147483648"

text \<open>What a call of the corrector leaves behind: the value returned, \<open>y[1]\<close>, and the
  number of calls of \<open>f\<close>. \<open>y[0]\<close> and \<open>f_history\<close> are only read.\<close>

record 'a corrector_result =
  cr_return :: int
  cr_y1 :: 'a
  cr_calls :: nat

definition Adams_Moulton_Steps ::
  "'a::{zero,one,plus,minus,times,abs,ord} coeffs \<Rightarrow> ('a \<Rightarrow> 'a \<Rightarrow> 'a) \<Rightarrow> 'a \<times> 'a \<Rightarrow> 'a \<Rightarrow> 'a \<Rightarrow>
     'a list \<Rightarrow> 'a \<Rightarrow> int \<Rightarrow> 'a corrector_result" where
  "Adams_Moulton_Steps c f y x h f_history tolerance iterations =
     (let delta = Adams_Moulton_delta_loop c f_history 1 (int (STEPS c) - 2) 0;
          s = Adams_Moulton_iterate c f (fst y) x h delta tolerance iterations
                \<lparr>cs_i = 0, cs_y1 = snd y, cs_calls = 0\<rparr>
      in \<lparr>cr_return = wrap_int (cs_i s + 1), cr_y1 = cs_y1 s, cr_calls = cs_calls s\<rparr>)"

subsection \<open>The step driver\<close>

text \<open>
  \<^verbatim>\<open>f_history[STEPS-1]  = (*f)(x0, y[0]);
  *y_bashforth  = Adams_Bashforth_12_Steps( y[0], h, f_history );
  for (i = 0; i < STEPS - 1; i++) f_history[i] = f_history[i+1];
  y[1] = *y_bashforth;
  return Adams_Moulton_11_Steps( f, y, x0+h, h, f_history, tolerance, iterations );\<close>
\<close>

function Adams_shift_loop :: "'a coeffs \<Rightarrow> nat \<Rightarrow> 'a list \<Rightarrow> 'a list" where
  "Adams_shift_loop c i f_history =
     (if i < STEPS c - 1
      then Adams_shift_loop c (i + 1) (f_history[i := f_history ! (i + 1)])
      else f_history)"
  by pat_completeness auto
termination
  by (relation "measure (\<lambda>(c, i, f_history). STEPS c - 1 - i)") auto

declare Adams_shift_loop.simps [simp del]

record 'a step_result =
  sr_return :: int
  sr_y :: "'a \<times> 'a"
  sr_f_history :: "'a list"
  sr_y_bashforth :: 'a
  sr_calls :: nat

definition Adams_Steps ::
  "'a::{zero,one,plus,minus,times,abs,ord} coeffs \<Rightarrow> ('a \<Rightarrow> 'a \<Rightarrow> 'a) \<Rightarrow> 'a \<times> 'a \<Rightarrow> 'a \<Rightarrow> 'a \<Rightarrow>
     'a list \<Rightarrow> 'a \<Rightarrow> int \<Rightarrow> 'a step_result" where
  "Adams_Steps c f y x0 h f_history tolerance iterations =
     (let f_history = f_history[STEPS c - 1 := f x0 (fst y)];
          y_bashforth = Adams_Bashforth_Steps c (fst y) h f_history;
          f_history = Adams_shift_loop c 0 f_history;
          y = (fst y, y_bashforth);
          r = Adams_Moulton_Steps c f y (x0 + h) h f_history tolerance iterations
      in \<lparr>sr_return = cr_return r, sr_y = (fst y, cr_y1 r), sr_f_history = f_history,
          sr_y_bashforth = y_bashforth, sr_calls = Suc (cr_calls r)\<rparr>)"

subsection \<open>Building the history\<close>

text \<open>
  \<^verbatim>\<open>for (i = 0; i < STEPS-1; x +=h, i++) f_history[i] = (*f)(x,y[i]);\<close>
\<close>

function Adams_Build_History_loop ::
  "'a::plus coeffs \<Rightarrow> ('a \<Rightarrow> 'a \<Rightarrow> 'a) \<Rightarrow> 'a list \<Rightarrow> 'a \<Rightarrow> nat \<Rightarrow> 'a \<Rightarrow> 'a list \<Rightarrow> 'a list" where
  "Adams_Build_History_loop c f y h i x f_history =
     (if i < STEPS c - 1
      then Adams_Build_History_loop c f y h (i + 1) (x + h) (f_history[i := f x (y ! i)])
      else f_history)"
  by pat_completeness auto
termination
  by (relation "measure (\<lambda>(c, f, y, h, i, x, f_history). STEPS c - 1 - i)") auto

declare Adams_Build_History_loop.simps [simp del]

definition Adams_Build_History ::
  "'a::plus coeffs \<Rightarrow> ('a \<Rightarrow> 'a \<Rightarrow> 'a) \<Rightarrow> 'a list \<Rightarrow> 'a list \<Rightarrow> 'a \<Rightarrow> 'a \<Rightarrow> 'a list" where
  "Adams_Build_History c f f_history y x h = Adams_Build_History_loop c f y h 0 x f_history"

subsection \<open>The three tables and the routines of the three files\<close>

definition coeffs_12 :: "real coeffs" where
  "coeffs_12 =
     \<lparr>bashforth = [4527766399, -19433810163, 61633227185,
        -135579356757, 214139355366, -247741639374, 211103573298,
        -131365867290, 58189107627, -17410248271, 3158642445, -262747265],
      moulton = [262747265, 1374799219, -2092490673,
        3828828885, -5519460582, 6043521486, -4963166514, 3007739418,
        -1305971115, 384709327, -68928781, 5675265],
      divisor = 1 / 958003200\<rparr>"

definition coeffs_16 :: "real coeffs" where
  "coeffs_16 =
     \<lparr>bashforth = [362555126427073, -2161567671248849,
        9622096909515337, -30607373860520569, 72558117072259733,
        -131963191940828581, 187463140112902893, -210020588912321949,
        186087544263596643, -129930094104237331, 70724351582843483,
        -29417910911251819, 9038571752734087, -1934443196892599,
        257650275915823, -16088129229375],
      moulton = [16088129229375, 105145058757073,
        -230992163723849, 612744541065337, -1326978663058069,
        2285168598349733, -3129453071993581, 3414941728852893,
        -2966365730265699, 2039345879546643, -1096355235402331,
        451403108933483, -137515713789319, 29219384284087,
        -3867689367599, 240208245823],
      divisor = 1 / 62768369664000\<rparr>"

definition coeffs_20 :: "real coeffs" where
  "coeffs_20 =
     \<lparr>bashforth = [691668239157222107697,
        -5292843584961252933125, 30349492858024727686755,
        -126346544855927856134295, 399537307669842150996468,
        -991168450545135070835076, 1971629028083798845750380,
        -3191065388846318679544380, 4241614331208149947151790,
        -4654326468801478894406214, 4222756879776354065593786,
        -3161821089800186539248210, 1943018818982002395655620,
        -970350191086531368649620, 387739787034699092364924,
        -121059601023985433003532, 28462032496476316665705,
        -4740335757093710713245, 498669220956647866875,
        -24919383499187492303],
      moulton = [24919383499187492303,
        193280569173472261637, -558160720115629395555,
        1941395668950986461335, -5612131802364455926260,
        13187185898439270330756, -25293146116627869170796,
        39878419226784442421820, -51970649453670274135470,
        56154678684618739939910, -50320851025594566473146,
        37297227252822858381906, -22726350407538133839300,
        11268210124987992327060, -4474886658024166985340,
        1389665263296211699212, -325187970422032795497,
        53935307402575440285, -5652892248087175675,
        281550972898020815],
      divisor = 1 / 102181884343418880000\<rparr>"

definition Adams_12_Steps where "Adams_12_Steps = Adams_Steps coeffs_12"
definition Adams_Bashforth_12_Steps where "Adams_Bashforth_12_Steps = Adams_Bashforth_Steps coeffs_12"
definition Adams_Moulton_11_Steps where "Adams_Moulton_11_Steps = Adams_Moulton_Steps coeffs_12"
definition Adams_12_Build_History where "Adams_12_Build_History = Adams_Build_History coeffs_12"

definition Adams_16_Steps where "Adams_16_Steps = Adams_Steps coeffs_16"
definition Adams_Moulton_15_Steps where "Adams_Moulton_15_Steps = Adams_Moulton_Steps coeffs_16"
definition Adams_16_Build_History where "Adams_16_Build_History = Adams_Build_History coeffs_16"

definition Adams_20_Steps where "Adams_20_Steps = Adams_Steps coeffs_20"
definition Adams_Moulton_19_Steps where "Adams_Moulton_19_Steps = Adams_Moulton_Steps coeffs_20"
definition Adams_20_Build_History where "Adams_20_Build_History = Adams_Build_History coeffs_20"

subsection \<open>The formulas as the specification words them\<close>


definition spec_delta :: "'a::{zero,plus,times} coeffs \<Rightarrow> 'a list \<Rightarrow> 'a" where
  "spec_delta c history =
     foldl (\<lambda>acc j. acc + moulton c ! j * history ! (STEPS c - 1 - j)) 0 [1..<STEPS c]"

definition spec_update ::
  "'a::{plus,times} coeffs \<Rightarrow> ('a \<Rightarrow> 'a \<Rightarrow> 'a) \<Rightarrow> 'a \<Rightarrow> 'a \<Rightarrow> 'a \<Rightarrow> 'a \<Rightarrow> 'a \<Rightarrow> 'a" where
  "spec_update c f y_prev x h delta y_next =
     y_prev + h * divisor c * (moulton c ! 0 * f x y_next + delta)"

text \<open>The estimate after \<open>n\<close> updates, and whether the test succeeds on iteration \<open>m\<close>
  (counted from 1): it compares the estimate before that iteration with the one after.\<close>

definition spec_estimate :: "('a \<Rightarrow> 'a) \<Rightarrow> 'a \<Rightarrow> nat \<Rightarrow> 'a" where
  "spec_estimate G y_next n = (G ^^ n) y_next"

definition spec_converged_on ::
  "('a::{one,minus,times,abs,ord} \<Rightarrow> 'a) \<Rightarrow> 'a \<Rightarrow> 'a \<Rightarrow> nat \<Rightarrow> bool" where
  "spec_converged_on G y_next tolerance m =
     (hasConverged (spec_estimate G y_next (m - 1)) (spec_estimate G y_next m) tolerance \<noteq> 0)"

text \<open>The update of one corrector call, from the routine's own arguments: \<open>y_prev\<close> is
  \<open>y[0]\<close> and \<open>delta\<close> is the fixed contribution of the history.\<close>

definition spec_corrector_update ::
  "'a::{zero,plus,times} coeffs \<Rightarrow> ('a \<Rightarrow> 'a \<Rightarrow> 'a) \<Rightarrow> 'a \<times> 'a \<Rightarrow> 'a \<Rightarrow> 'a \<Rightarrow> 'a list \<Rightarrow> 'a \<Rightarrow> 'a" where
  "spec_corrector_update c f y x h history =
     spec_update c f (fst y) x h (spec_delta c history)"

text \<open>The abscissa the history builder has reached after \<open>i\<close> executions of
  \<^verbatim>\<open>x += h\<close>.\<close>

definition abscissa :: "'a::plus \<Rightarrow> 'a \<Rightarrow> nat \<Rightarrow> 'a" where
  "abscissa x h i = ((\<lambda>x. x + h) ^^ i) x"


subsection \<open>IEEE 754 binary64 numbers\<close>

text \<open>
  The values of a C \<^verbatim>\<open>double\<close>: the finite ones as the rationals they denote, the two
  infinities and NaN. The two zeros are one value here: the routines only add, subtract,
  multiply, take \<^verbatim>\<open>fabs\<close> and compare, and none of these tells \<open>-0.0\<close> from \<open>0.0\<close>.
  Every double is a value of the type; \<open>Double q\<close> is one for every rational \<open>q\<close>, so
  what holds for every value of the type holds for every double.

  Each operation is the exact one followed by rounding to nearest, ties to even, in the
  default rounding mode, every intermediate result being a double (\<^verbatim>\<open>FLT_EVAL_METHOD\<close> 0).
  \<open>round_ties_even\<close> rounds a rational to an integer. \<open>binary_exponent q\<close> is the exponent
  of the last of the 53 bits of the significand of \<open>q\<close>: \<open>\<lfloor>log\<^sub>2 \<bar>q\<bar>\<rfloor> - 52\<close>, and at least
  \<open>-1074\<close>, where the subnormal numbers begin (with \<open>a / b\<close> the fraction \<open>\<bar>q\<bar>\<close> in lowest
  terms and \<open>d\<close> the difference of the bit lengths of \<open>a\<close> and \<open>b\<close>, \<open>\<lfloor>log\<^sub>2 \<bar>q\<bar>\<rfloor>\<close> is \<open>d - 1\<close>
  if \<open>\<bar>q\<bar> < 2\<^sup>d\<close> and \<open>d\<close> otherwise). The rounded significand \<open>m\<close> times \<open>2\<^sup>e\<close> is the
  result, unless it has reached \<open>2\<^sup>1\<^sup>0\<^sup>2\<^sup>4\<close>, that is unless the bit length of \<open>\<bar>m\<bar>\<close> plus \<open>e\<close>
  exceeds 1024: then the result is the infinity of the sign of \<open>q\<close>.
\<close>

datatype binary64 = Double rat | PosInf | NegInf | NaN

definition round_ties_even :: "rat \<Rightarrow> int" where
  "round_ties_even q =
     (let n = \<lfloor>q\<rfloor>; r = q - of_int n
      in if r < 1 / 2 then n else if 1 / 2 < r then n + 1 else if even n then n else n + 1)"

definition binary_exponent :: "rat \<Rightarrow> int" where
  "binary_exponent q =
     (let (a, b) = quotient_of \<bar>q\<bar>; d = bitlen a - bitlen b
      in max (if \<bar>q\<bar> < 2 powi d then d - 53 else d - 52) (- 1074))"

definition round_binary64 :: "rat \<Rightarrow> binary64" where
  "round_binary64 q =
     (if q = 0 then Double 0
      else let e = binary_exponent q;
               m = round_ties_even (q / 2 powi e)
           in if 1024 < bitlen \<bar>m\<bar> + e then (if 0 < q then PosInf else NegInf)
              else Double (of_int m * 2 powi e))"

text \<open>An infinity times the finite number \<open>a\<close>: NaN for zero, else the infinity of the
  product of the signs.\<close>

definition inf_times :: "bool \<Rightarrow> rat \<Rightarrow> binary64" where
  "inf_times positive a =
     (if a = 0 then NaN else if (0 < a) = positive then PosInf else NegInf)"

fun add_binary64 :: "binary64 \<Rightarrow> binary64 \<Rightarrow> binary64" where
  "add_binary64 NaN b = NaN"
| "add_binary64 a NaN = NaN"
| "add_binary64 (Double a) (Double b) = round_binary64 (a + b)"
| "add_binary64 (Double a) PosInf = PosInf"
| "add_binary64 (Double a) NegInf = NegInf"
| "add_binary64 PosInf (Double b) = PosInf"
| "add_binary64 PosInf PosInf = PosInf"
| "add_binary64 PosInf NegInf = NaN"
| "add_binary64 NegInf (Double b) = NegInf"
| "add_binary64 NegInf PosInf = NaN"
| "add_binary64 NegInf NegInf = NegInf"

fun sub_binary64 :: "binary64 \<Rightarrow> binary64 \<Rightarrow> binary64" where
  "sub_binary64 NaN b = NaN"
| "sub_binary64 a NaN = NaN"
| "sub_binary64 (Double a) (Double b) = round_binary64 (a - b)"
| "sub_binary64 (Double a) PosInf = NegInf"
| "sub_binary64 (Double a) NegInf = PosInf"
| "sub_binary64 PosInf (Double b) = PosInf"
| "sub_binary64 PosInf PosInf = NaN"
| "sub_binary64 PosInf NegInf = PosInf"
| "sub_binary64 NegInf (Double b) = NegInf"
| "sub_binary64 NegInf PosInf = NegInf"
| "sub_binary64 NegInf NegInf = NaN"

fun mul_binary64 :: "binary64 \<Rightarrow> binary64 \<Rightarrow> binary64" where
  "mul_binary64 NaN b = NaN"
| "mul_binary64 a NaN = NaN"
| "mul_binary64 (Double a) (Double b) = round_binary64 (a * b)"
| "mul_binary64 (Double a) PosInf = inf_times True a"
| "mul_binary64 (Double a) NegInf = inf_times False a"
| "mul_binary64 PosInf (Double b) = inf_times True b"
| "mul_binary64 PosInf PosInf = PosInf"
| "mul_binary64 PosInf NegInf = NegInf"
| "mul_binary64 NegInf (Double b) = inf_times False b"
| "mul_binary64 NegInf PosInf = NegInf"
| "mul_binary64 NegInf NegInf = PosInf"

text \<open>\<^verbatim>\<open>fabs\<close>, and the comparisons \<^verbatim>\<open><\<close> and \<^verbatim>\<open><=\<close>, which are false when an operand is
  NaN.\<close>

fun fabs :: "binary64 \<Rightarrow> binary64" where
  "fabs (Double a) = Double \<bar>a\<bar>"
| "fabs PosInf = PosInf"
| "fabs NegInf = PosInf"
| "fabs NaN = NaN"

fun lt_binary64 :: "binary64 \<Rightarrow> binary64 \<Rightarrow> bool" where
  "lt_binary64 NaN b = False"
| "lt_binary64 a NaN = False"
| "lt_binary64 (Double a) (Double b) = (a < b)"
| "lt_binary64 (Double a) PosInf = True"
| "lt_binary64 (Double a) NegInf = False"
| "lt_binary64 PosInf b = False"
| "lt_binary64 NegInf (Double b) = True"
| "lt_binary64 NegInf PosInf = True"
| "lt_binary64 NegInf NegInf = False"

definition isnan :: "binary64 \<Rightarrow> bool" where
  "isnan d = (d = NaN)"

instantiation binary64 :: "{zero,one,plus,minus,times,abs,ord}"
begin
definition "0 = Double 0"
definition "1 = Double 1"
definition "a + b = add_binary64 a b"
definition "a - b = sub_binary64 a b"
definition "a * b = mul_binary64 a b"
definition "\<bar>a\<bar> = fabs a"
definition "a < b \<longleftrightarrow> lt_binary64 a b"
definition "a \<le> b \<longleftrightarrow> lt_binary64 a b \<or> (a = b \<and> \<not> isnan a)"
instance ..
end

text \<open>A decimal literal of the C source is the double nearest to it.\<close>

definition literal :: "rat \<Rightarrow> binary64" where
  "literal q = round_binary64 q"


section \<open>Properties of the loops\<close>

lemma STEPS_tables: "STEPS coeffs_12 = 12" "STEPS coeffs_16 = 16" "STEPS coeffs_20 = 20"
  by (simp_all add: STEPS_def coeffs_12_def coeffs_16_def coeffs_20_def)

lemma Bashforth_loop_foldl:
  "int i + n = int (STEPS c) - 1 \<Longrightarrow>
   Adams_Bashforth_loop c H i n delta =
     foldl (\<lambda>acc j. acc + bashforth c ! j * H ! (STEPS c - 1 - j)) delta [i..<STEPS c]"
proof (induction c H i n delta rule: Adams_Bashforth_loop.induct)
  case (1 c H i n delta)
  show ?case
  proof (cases "i < STEPS c")
    case True
    have n: "nat n = STEPS c - 1 - i" using "1.prems" True by linarith
    have inv: "int (i + 1) + (n - 1) = int (STEPS c) - 1" using "1.prems" by simp
    show ?thesis
      using "1.IH"[OF True inv] True n
      by (subst Adams_Bashforth_loop.simps) (simp add: upt_conv_Cons)
  next
    case False
    then show ?thesis by (subst Adams_Bashforth_loop.simps) simp
  qed
qed

lemma Moulton_delta_loop_foldl:
  "int i + n = int (STEPS c) - 1 \<Longrightarrow>
   Adams_Moulton_delta_loop c H i n delta =
     foldl (\<lambda>acc j. acc + moulton c ! j * H ! (STEPS c - 1 - j)) delta [i..<STEPS c]"
proof (induction c H i n delta rule: Adams_Moulton_delta_loop.induct)
  case (1 c H i n delta)
  show ?case
  proof (cases "i < STEPS c")
    case True
    have n: "nat n = STEPS c - 1 - i" using "1.prems" True by linarith
    have inv: "int (i + 1) + (n - 1) = int (STEPS c) - 1" using "1.prems" by simp
    show ?thesis
      using "1.IH"[OF True inv] True n
      by (subst Adams_Moulton_delta_loop.simps) (simp add: upt_conv_Cons)
  next
    case False
    then show ?thesis by (subst Adams_Moulton_delta_loop.simps) simp
  qed
qed

lemma shift_loop_length: "length (Adams_shift_loop c i H) = length H"
proof (induction c i H rule: Adams_shift_loop.induct)
  case (1 c i H)
  show ?case
    using "1.IH" by (subst Adams_shift_loop.simps) simp
qed

lemma shift_loop_nth:
  "STEPS c \<le> length H \<Longrightarrow> j < length H \<Longrightarrow>
   Adams_shift_loop c i H ! j = (if i \<le> j \<and> j < STEPS c - 1 then H ! (j + 1) else H ! j)"
proof (induction c i H rule: Adams_shift_loop.induct)
  case (1 c i H)
  show ?case
  proof (cases "i < STEPS c - 1")
    case True
    have len: "STEPS c \<le> length (H[i := H ! (i + 1)])" "j < length (H[i := H ! (i + 1)])"
      using "1.prems" by simp_all
    show ?thesis
      using "1.IH"[OF True len] True "1.prems"
      by (subst Adams_shift_loop.simps) (auto simp: nth_list_update)
  next
    case False
    then show ?thesis by (subst Adams_shift_loop.simps) auto
  qed
qed

lemma Build_History_loop_length:
  "length (Adams_Build_History_loop c f y h i x H) = length H"
proof (induction c f y h i x H rule: Adams_Build_History_loop.induct)
  case (1 c f y h i x H)
  show ?case
    using "1.IH" by (subst Adams_Build_History_loop.simps) simp
qed

lemma Build_History_loop_nth:
  "j < length H \<Longrightarrow>
   Adams_Build_History_loop c f y h i x H ! j =
     (if i \<le> j \<and> j < STEPS c - 1 then f (abscissa x h (j - i)) (y ! j) else H ! j)"
  unfolding abscissa_def
proof (induction c f y h i x H rule: Adams_Build_History_loop.induct)
  case (1 c f y h i x H)
  show ?case
  proof (cases "i < STEPS c - 1")
    case True
    have len: "j < length (H[i := f x (y ! i)])"
      using "1.prems" by simp
    have sw: "((\<lambda>x. x + h) ^^ n) (x + h) = ((\<lambda>x. x + h) ^^ Suc n) x" for n
      using funpow_swap1[of "\<lambda>x. x + h" n x] by simp
    show ?thesis
    proof (cases "j = i")
      case True
      then show ?thesis using "1.IH"[OF \<open>i < STEPS c - 1\<close> len] \<open>i < STEPS c - 1\<close> "1.prems"
        by (subst Adams_Build_History_loop.simps) simp
    next
      case False
      then show ?thesis using "1.IH"[OF \<open>i < STEPS c - 1\<close> len] \<open>i < STEPS c - 1\<close> "1.prems"
        by (subst Adams_Build_History_loop.simps) (auto simp: sw Suc_diff_Suc simp del: funpow.simps)
    qed
  next
    case False
    then show ?thesis by (subst Adams_Build_History_loop.simps) auto
  qed
qed

lemma spec_estimate_0: "spec_estimate G y 0 = y"
  by (simp add: spec_estimate_def)

lemma spec_estimate_Suc: "spec_estimate G y (Suc n) = G (spec_estimate G y n)"
  by (simp add: spec_estimate_def)

lemma spec_estimate_shift: "spec_estimate G (G y) n = spec_estimate G y (Suc n)"
  by (simp add: spec_estimate_def funpow_swap1)

lemma spec_converged_on_shift:
  "1 \<le> m \<Longrightarrow> spec_converged_on G (G y) tol m = spec_converged_on G y tol (Suc m)"
  by (cases m) (simp_all add: spec_converged_on_def spec_estimate_shift)

lemma iterate_unfold:
  "Adams_Moulton_iterate c f y0 x h delta tol N s =
     (if cs_i s < N
      then if spec_converged_on (spec_update c f y0 x h delta) (cs_y1 s) tol 1
           then \<lparr>cs_i = cs_i s, cs_y1 = spec_update c f y0 x h delta (cs_y1 s),
                  cs_calls = Suc (cs_calls s)\<rparr>
           else Adams_Moulton_iterate c f y0 x h delta tol N
                  \<lparr>cs_i = cs_i s + 1, cs_y1 = spec_update c f y0 x h delta (cs_y1 s),
                   cs_calls = Suc (cs_calls s)\<rparr>
      else s)"
  by (subst Adams_Moulton_iterate.simps)
     (simp add: Let_def spec_converged_on_def spec_estimate_def spec_update_def)

lemma iterate_converges:
  assumes "1 \<le> m" and "cs_i s + int m \<le> N"
    and "spec_converged_on (spec_update c f y0 x h delta) (cs_y1 s) tol m"
    and "\<forall>j. 1 \<le> j \<and> j < m \<longrightarrow> \<not> spec_converged_on (spec_update c f y0 x h delta) (cs_y1 s) tol j"
  shows "Adams_Moulton_iterate c f y0 x h delta tol N s =
           \<lparr>cs_i = cs_i s + int m - 1,
            cs_y1 = spec_estimate (spec_update c f y0 x h delta) (cs_y1 s) m,
            cs_calls = cs_calls s + m\<rparr>"
  using assms
proof (induction m arbitrary: s)
  case 0
  then show ?case by simp
next
  case (Suc m)
  let ?G = "spec_update c f y0 x h delta"
  have lt: "cs_i s < N" using Suc.prems(2) by simp
  show ?case
  proof (cases "m = 0")
    case True
    then show ?thesis
      using Suc.prems lt
      by (subst iterate_unfold) (simp add: spec_estimate_def)
  next
    case False
    then have m1: "1 \<le> m" by simp
    have nc: "\<not> spec_converged_on ?G (cs_y1 s) tol 1"
      using Suc.prems(4) False by simp
    let ?s = "\<lparr>cs_i = cs_i s + 1, cs_y1 = ?G (cs_y1 s), cs_calls = Suc (cs_calls s)\<rparr>"
    have a2: "cs_i ?s + int m \<le> N" using Suc.prems(2) by simp
    have a3: "spec_converged_on ?G (cs_y1 ?s) tol m"
      using Suc.prems(3) m1 by (simp add: spec_converged_on_shift)
    have a4: "\<forall>j. 1 \<le> j \<and> j < m \<longrightarrow> \<not> spec_converged_on ?G (cs_y1 ?s) tol j"
      using Suc.prems(4) by (simp add: spec_converged_on_shift)
    show ?thesis
      using Suc.IH[OF m1 a2 a3 a4] lt nc
      by (subst iterate_unfold) (simp add: spec_estimate_shift)
  qed
qed

lemma iterate_exhausts:
  assumes "n = nat (N - cs_i s)"
    and "\<forall>j. 1 \<le> j \<and> j \<le> n \<longrightarrow> \<not> spec_converged_on (spec_update c f y0 x h delta) (cs_y1 s) tol j"
  shows "Adams_Moulton_iterate c f y0 x h delta tol N s =
           \<lparr>cs_i = max (cs_i s) N,
            cs_y1 = spec_estimate (spec_update c f y0 x h delta) (cs_y1 s) n,
            cs_calls = cs_calls s + n\<rparr>"
  using assms
proof (induction n arbitrary: s)
  case 0
  then have "\<not> cs_i s < N" by simp
  then show ?case
    using 0 by (subst iterate_unfold) (simp add: spec_estimate_def max_def)
next
  case (Suc n)
  let ?G = "spec_update c f y0 x h delta"
  have lt: "cs_i s < N" using Suc.prems(1) by linarith
  have nc: "\<not> spec_converged_on ?G (cs_y1 s) tol 1"
    using Suc.prems(2) by simp
  let ?s = "\<lparr>cs_i = cs_i s + 1, cs_y1 = ?G (cs_y1 s), cs_calls = Suc (cs_calls s)\<rparr>"
  have a1: "n = nat (N - cs_i ?s)" using Suc.prems(1) by simp
  have a2: "\<forall>j. 1 \<le> j \<and> j \<le> n \<longrightarrow> \<not> spec_converged_on ?G (cs_y1 ?s) tol j"
    using Suc.prems(2) by (simp add: spec_converged_on_shift)
  show ?case
    using Suc.IH[OF a1 a2] lt nc
    by (subst iterate_unfold) (simp add: spec_estimate_shift max_def)
qed

lemma wrap_int_id: "- 2147483648 \<le> z \<Longrightarrow> z < 2147483648 \<Longrightarrow> wrap_int z = z"
  by (simp add: wrap_int_def)

lemma Moulton_delta_eq:
  "Adams_Moulton_delta_loop c H 1 (int (STEPS c) - 2) 0 = spec_delta c H"
  by (simp add: Moulton_delta_loop_foldl spec_delta_def)


lemma Moulton_Steps_eq:
  "Adams_Moulton_Steps c f y x h H tol N =
     (let s = Adams_Moulton_iterate c f (fst y) x h (spec_delta c H) tol N
                \<lparr>cs_i = 0, cs_y1 = snd y, cs_calls = 0\<rparr>
      in \<lparr>cr_return = wrap_int (cs_i s + 1), cr_y1 = cs_y1 s, cr_calls = cs_calls s\<rparr>)"
  by (simp only: Adams_Moulton_Steps_def Moulton_delta_eq Let_def)

lemma Moulton_Steps_converges:
  assumes "1 \<le> m" and "int m \<le> N"
    and "spec_converged_on (spec_corrector_update c f y x h H) (snd y) tol m"
    and "\<forall>j. 1 \<le> j \<and> j < m \<longrightarrow> \<not> spec_converged_on (spec_corrector_update c f y x h H) (snd y) tol j"
  shows "Adams_Moulton_Steps c f y x h H tol N =
           \<lparr>cr_return = wrap_int (int m),
            cr_y1 = spec_estimate (spec_corrector_update c f y x h H) (snd y) m,
            cr_calls = m\<rparr>"
proof -
  let ?s = "\<lparr>cs_i = 0, cs_y1 = snd y, cs_calls = 0\<rparr>"
  have "Adams_Moulton_iterate c f (fst y) x h (spec_delta c H) tol N ?s =
          \<lparr>cs_i = cs_i ?s + int m - 1,
           cs_y1 = spec_estimate (spec_update c f (fst y) x h (spec_delta c H)) (cs_y1 ?s) m,
           cs_calls = cs_calls ?s + m\<rparr>"
    using assms by (intro iterate_converges) (simp_all add: spec_corrector_update_def)
  then show ?thesis
    by (simp add: Moulton_Steps_eq spec_corrector_update_def)
qed

lemma Moulton_Steps_exhausts:
  assumes "\<forall>j. 1 \<le> j \<and> int j \<le> N \<longrightarrow> \<not> spec_converged_on (spec_corrector_update c f y x h H) (snd y) tol j"
  shows "Adams_Moulton_Steps c f y x h H tol N =
           \<lparr>cr_return = wrap_int (max 0 N + 1),
            cr_y1 = spec_estimate (spec_corrector_update c f y x h H) (snd y) (nat N),
            cr_calls = nat N\<rparr>"
proof -
  let ?s = "\<lparr>cs_i = 0, cs_y1 = snd y, cs_calls = 0\<rparr>"
  have "Adams_Moulton_iterate c f (fst y) x h (spec_delta c H) tol N ?s =
          \<lparr>cs_i = max (cs_i ?s) N,
           cs_y1 = spec_estimate (spec_update c f (fst y) x h (spec_delta c H)) (cs_y1 ?s) (nat N),
           cs_calls = cs_calls ?s + nat N\<rparr>"
  proof (intro iterate_exhausts allI impI)
    show "nat N = nat (N - cs_i ?s)" by simp
  next
    fix j assume "1 \<le> j \<and> j \<le> nat N"
    then have "1 \<le> j \<and> int j \<le> N" by linarith
    then show "\<not> spec_converged_on (spec_update c f (fst y) x h (spec_delta c H)) (cs_y1 ?s) tol j"
      using assms by (simp add: spec_corrector_update_def)
  qed
  then show ?thesis
    by (simp add: Moulton_Steps_eq spec_corrector_update_def)
qed

text \<open>Every run is one of the two.\<close>

lemma Moulton_Steps_cases:
  obtains (converged) m where "1 \<le> m" "int m \<le> N"
      "spec_converged_on (spec_corrector_update c f y x h H) (snd y) tol m"
      "\<forall>j. 1 \<le> j \<and> j < m \<longrightarrow> \<not> spec_converged_on (spec_corrector_update c f y x h H) (snd y) tol j"
      "Adams_Moulton_Steps c f y x h H tol N =
         \<lparr>cr_return = wrap_int (int m),
          cr_y1 = spec_estimate (spec_corrector_update c f y x h H) (snd y) m,
          cr_calls = m\<rparr>"
  | (exhausted)
      "\<forall>j. 1 \<le> j \<and> int j \<le> N \<longrightarrow> \<not> spec_converged_on (spec_corrector_update c f y x h H) (snd y) tol j"
      "Adams_Moulton_Steps c f y x h H tol N =
         \<lparr>cr_return = wrap_int (max 0 N + 1),
          cr_y1 = spec_estimate (spec_corrector_update c f y x h H) (snd y) (nat N),
          cr_calls = nat N\<rparr>"
proof (cases "\<exists>j. 1 \<le> j \<and> int j \<le> N \<and> spec_converged_on (spec_corrector_update c f y x h H) (snd y) tol j")
  case True
  let ?P = "\<lambda>j. 1 \<le> j \<and> int j \<le> N \<and> spec_converged_on (spec_corrector_update c f y x h H) (snd y) tol j"
  define m where "m = (LEAST j. ?P j)"
  have Pm: "?P m" unfolding m_def using True by (rule LeastI_ex)
  have least: "\<And>j. j < m \<Longrightarrow> \<not> ?P j" unfolding m_def by (rule not_less_Least)
  have nc: "\<forall>j. 1 \<le> j \<and> j < m \<longrightarrow> \<not> spec_converged_on (spec_corrector_update c f y x h H) (snd y) tol j"
  proof (intro allI impI)
    fix j assume j: "1 \<le> j \<and> j < m"
    then have "int j \<le> N" using Pm by linarith
    then show "\<not> spec_converged_on (spec_corrector_update c f y x h H) (snd y) tol j"
      using least[of j] j by blast
  qed
  show ?thesis
    using converged[of m] Pm nc Moulton_Steps_converges[of m N c f y x h H tol] by blast
next
  case False
  then have nc: "\<forall>j. 1 \<le> j \<and> int j \<le> N \<longrightarrow> \<not> spec_converged_on (spec_corrector_update c f y x h H) (snd y) tol j"
    by blast
  show ?thesis
    using exhausted nc Moulton_Steps_exhausts[OF nc] by blast
qed

lemma upt_12: "[0..<12] = [0, 1, 2, 3, 4, 5, 6, 7, 8, 9, 10, 11]"
  by (simp add: upt_rec)

subsection \<open>The convergence test\<close>

text \<open>On a linear order the conjunction of the two comparisons is the comparison with the
  minimum, with no law of the arithmetic assumed.\<close>

lemma hasConverged_linorder:
  fixes y0 y1 epsilon :: "'a::{one,minus,times,abs,linorder}"
  shows "hasConverged y0 y1 epsilon =
           (if \<bar>y0 - y1\<bar> < (if 1 < min \<bar>y0\<bar> \<bar>y1\<bar> then epsilon * \<bar>y1\<bar> else epsilon)
            then 1 else 0)"
    and "(1 < \<bar>y0\<bar> \<and> 1 < \<bar>y1\<bar>) = (1 < min \<bar>y0\<bar> \<bar>y1\<bar>)"
  by (simp_all add: hasConverged_def Let_def)

text \<open>The doubles are not a linear order, NaN being comparable to nothing, and their
  product is rounded; it is commutative all the same.\<close>

lemma times_binary64_commute:
  fixes a b :: binary64
  shows "a * b = b * a"
  by (cases a; cases b) (simp_all add: times_binary64_def mult.commute)

lemma less_binary64_NaN [simp]:
  fixes a :: binary64
  shows "\<not> NaN < a" "\<not> a < NaN"
  by (cases a; simp add: less_binary64_def)+

lemma minus_binary64_NaN [simp]:
  fixes a :: binary64
  shows "NaN - a = NaN" "a - NaN = NaN"
  by (cases a; simp add: minus_binary64_def)+

lemma abs_binary64_NaN [simp]:
  fixes a :: binary64
  shows "(\<bar>a\<bar> = NaN) = (a = NaN)" "\<bar>NaN :: binary64\<bar> = NaN"
  by (cases a; simp add: abs_binary64_def)+

lemma min_binary64:
  fixes a b :: binary64
  assumes "a \<noteq> NaN" "b \<noteq> NaN"
  shows "(1 < a \<and> 1 < b) = (1 < min a b)"
  using assms
  by (cases a; cases b)
     (auto simp add: min_def less_binary64_def less_eq_binary64_def one_binary64_def isnan_def)

lemma hasConverged_binary64:
  fixes d0 d1 tol :: binary64
  shows "hasConverged d0 d1 tol =
           (if \<bar>d0 - d1\<bar> < (if 1 < min \<bar>d0\<bar> \<bar>d1\<bar> then \<bar>d1\<bar> * tol else tol) then 1 else 0)"
proof (cases "d0 = NaN \<or> d1 = NaN")
  case True
  then have "\<bar>d0 - d1\<bar> = NaN" by auto
  then show ?thesis by (simp add: hasConverged_def Let_def del: abs_binary64_NaN)
next
  case False
  then have "(1 < \<bar>d0\<bar> \<and> 1 < \<bar>d1\<bar>) = (1 < min \<bar>d0\<bar> \<bar>d1\<bar>)"
    by (intro min_binary64) simp_all
  then show ?thesis
    by (simp add: hasConverged_def Let_def times_binary64_commute[of tol])
qed

text \<open>The rounding on four numbers: the literal \<open>0.1\<close>; a product that lies halfway between
  two doubles and goes to the even one; a sum that is absorbed; a difference that is
  exact.\<close>

lemma round_binary64_examples:
  "literal (1 / 10) = Double (3602879701896397 / 36028797018963968)"
  "Double 3 * Double (6004799503160662 / 18014398509481984) = Double 1"
  "Double 1 + Double (1 / 2 ^ 53) = Double 1"
  "Double 2 - Double 3 = Double (- 1)"
  by code_simp+

subsection \<open>The step driver and the history builder\<close>

lemma Adams_Steps_history:
  "sr_f_history (Adams_Steps c f y x0 h H tol N) =
     Adams_shift_loop c 0 (H[STEPS c - 1 := f x0 (fst y)])"
  by (simp add: Adams_Steps_def Let_def)

lemma Adams_Steps_history_length:
  "length (sr_f_history (Adams_Steps c f y x0 h H tol N)) = length H"
  by (simp add: Adams_Steps_history shift_loop_length)

lemma Adams_Steps_history_nth:
  assumes "length H = STEPS c" and "j < STEPS c"
  shows "sr_f_history (Adams_Steps c f y x0 h H tol N) ! j =
           (if j + 2 < STEPS c then H ! (j + 1) else f x0 (fst y))"
proof -
  let ?H = "H[STEPS c - 1 := f x0 (fst y)]"
  have "Adams_shift_loop c 0 ?H ! j = (if 0 \<le> j \<and> j < STEPS c - 1 then ?H ! (j + 1) else ?H ! j)"
    using assms by (intro shift_loop_nth) simp_all
  then show ?thesis
    using assms by (auto simp: Adams_Steps_history nth_list_update)
qed

lemma spec_delta_ignores_last:
  "spec_delta c (H[STEPS c - 1 := v]) = spec_delta c H"
  unfolding spec_delta_def
proof (rule foldl_cong[OF refl refl])
  fix a j assume "j \<in> set [1..<STEPS c]"
  then have "STEPS c - 1 - j \<noteq> STEPS c - 1" by auto
  then show "a + moulton c ! j * H[STEPS c - 1 := v] ! (STEPS c - 1 - j) =
             a + moulton c ! j * H ! (STEPS c - 1 - j)"
    by simp
qed

lemma Moulton_Steps_ignores_last:
  "Adams_Moulton_Steps c f y x h (H[STEPS c - 1 := v]) tol N = Adams_Moulton_Steps c f y x h H tol N"
  by (simp only: Moulton_Steps_eq spec_delta_ignores_last)

lemma Adams_Steps_ignores_last:
  "Adams_Steps c f y x0 h (H[STEPS c - 1 := v]) tol N = Adams_Steps c f y x0 h H tol N"
  by (simp add: Adams_Steps_def)

lemma Build_History_nth:
  assumes "j < length H"
  shows "Adams_Build_History c f H y x h ! j =
           (if j < STEPS c - 1 then f (abscissa x h j) (y ! j) else H ! j)"
  using Build_History_loop_nth[OF assms, of c f y h 0 x]
  by (simp add: Adams_Build_History_def)

lemma abscissa_real: "abscissa (x::real) h i = x + real i * h"
  by (induction i) (simp_all add: abscissa_def algebra_simps)

subsection \<open>Two runs of the 12-step corrector\<close>

text \<open>
  With \<open>f(x, y) = y\<close>, a history of zeros, \<open>y[0] = 0\<close> and \<open>h = 8709120 / 4777223\<close> (so that
  \<open>h * divisor * moulton[0] = 1/2\<close>) the update halves the estimate. From \<open>y[1] = 1\<close> and
  with tolerance \<open>1/2\<close> the test fails on the first iteration (\<open>\<bar>1 - 1/2\<bar> = 1/2\<close>) and
  succeeds on the second; with tolerance \<open>0\<close> it never succeeds.
\<close>

lemma foldl_keep: "foldl (\<lambda>acc j. acc) a xs = a"
  by (induction xs) simp_all

lemma spec_delta_12_zero: "spec_delta coeffs_12 (replicate 12 0) = 0"
  by (simp add: spec_delta_def STEPS_tables foldl_keep)

lemma example_update_12:
  "spec_corrector_update coeffs_12 (\<lambda>x y. y) (0, 1) 0 (8709120 / 4777223) (replicate 12 0) =
     (\<lambda>y1. y1 / 2)"
proof (rule ext)
  fix y1 :: real
  have "spec_corrector_update coeffs_12 (\<lambda>x y. y) (0, 1) 0 (8709120 / 4777223) (replicate 12 0) y1 =
          0 + 8709120 / 4777223 * divisor coeffs_12 * (moulton coeffs_12 ! 0 * y1 + 0)"
    by (simp only: spec_corrector_update_def spec_update_def spec_delta_12_zero fst_conv)
  also have "\<dots> = y1 / 2"
    by (simp add: coeffs_12_def)
  finally show "spec_corrector_update coeffs_12 (\<lambda>x y. y) (0, 1) 0 (8709120 / 4777223)
                  (replicate 12 0) y1 = y1 / 2" .
qed

lemma example_converged_12:
  "\<not> spec_converged_on (\<lambda>y1::real. y1 / 2) 1 (1 / 2) (Suc 0)"
  "spec_converged_on (\<lambda>y1::real. y1 / 2) 1 (1 / 2) (Suc (Suc 0))"
  by (simp_all add: spec_converged_on_def spec_estimate_def hasConverged_def)

lemma example_run_12:
  "Adams_Moulton_11_Steps (\<lambda>x y. y) (0, 1) 0 (8709120 / 4777223) (replicate 12 0) (1 / 2) 3 =
     \<lparr>cr_return = 2, cr_y1 = 1 / 4, cr_calls = 2\<rparr>"
proof -
  let ?G = "spec_corrector_update coeffs_12 (\<lambda>x y. y) (0, 1) 0 (8709120 / 4777223) (replicate 12 0)"
  have nc: "\<forall>j. 1 \<le> j \<and> j < Suc (Suc 0) \<longrightarrow> \<not> spec_converged_on ?G (snd (0, 1::real)) (1 / 2) j"
  proof (intro allI impI)
    fix j :: nat assume "1 \<le> j \<and> j < Suc (Suc 0)"
    then have "j = Suc 0" by linarith
    then show "\<not> spec_converged_on ?G (snd (0, 1::real)) (1 / 2) j"
      by (simp add: example_update_12 example_converged_12)
  qed
  have c: "spec_converged_on ?G (snd (0, 1::real)) (1 / 2) (Suc (Suc 0))"
    by (simp add: example_update_12 example_converged_12)
  show ?thesis
    using Moulton_Steps_converges[of "Suc (Suc 0)" 3 coeffs_12 "\<lambda>x y. y" "(0, 1)" 0
        "8709120 / 4777223" "replicate 12 0" "1 / 2", OF _ _ c nc]
    by (simp add: Adams_Moulton_11_Steps_def example_update_12 spec_estimate_def wrap_int_def)
qed

lemma never_converged_zero_tolerance:
  fixes G :: "real \<Rightarrow> real"
  shows "\<not> spec_converged_on G y 0 m"
  by (simp add: spec_converged_on_def hasConverged_def Let_def)

lemma example_run_12_exhausted:
  "Adams_Moulton_11_Steps (\<lambda>x y. y) (0, 1) 0 (8709120 / 4777223) (replicate 12 0) 0 3 =
     \<lparr>cr_return = 4, cr_y1 = 1 / 8, cr_calls = 3\<rparr>"
proof -
  let ?G = "spec_corrector_update coeffs_12 (\<lambda>x y. y) (0, 1) 0 (8709120 / 4777223) (replicate 12 0)"
  show ?thesis
    using Moulton_Steps_exhausts[of 3 coeffs_12 "\<lambda>x y. y" "(0, 1)" 0
        "8709120 / 4777223" "replicate 12 0" 0]
    by (simp add: Adams_Moulton_11_Steps_def example_update_12 never_converged_zero_tolerance
          spec_estimate_def numeral_3_eq_3 wrap_int_def)
qed

subsection \<open>The predictor on a constant history\<close>








section \<open>The claims\<close>

subsection \<open>C1: the history after one step\<close>

text \<open>
  The claim as worded lets the whole input buffer move down: \<open>new[i] = H[i+1]\<close> for
  \<open>i = 0, ..., k-2\<close>. The driver stores \<open>f(x0, y[0])\<close> in slot \<open>k-1\<close> before it shifts, so
  slot \<open>k-2\<close> receives that value and not the input's \<open>H[k-1]\<close>. The 12-step driver on a
  history whose last entry is 1, with \<open>f = 0\<close>: \<open>new[10]\<close> is 0, not \<open>H[11] = 1\<close>.
\<close>

theorem Adams_Steps_history_shift_counterexample:
  "sr_f_history (Adams_12_Steps (\<lambda>x y. 0) (0, 0) 0 1 [0, 0, 0, 0, 0, 0, 0, 0, 0, 0, 0, 1] 1 1) ! 10 \<noteq>
     [0, 0, 0, 0, 0, 0, 0, 0, 0, 0, 0, 1 :: real] ! (10 + 1)"
proof -
  have "sr_f_history (Adams_Steps coeffs_12 (\<lambda>x y. 0) (0, 0) 0 1
            [0, 0, 0, 0, 0, 0, 0, 0, 0, 0, 0, 1] 1 1) ! 10 = 0"
    by (subst Adams_Steps_history_nth) (simp_all add: STEPS_tables)
  then show ?thesis
    by (simp add: Adams_12_Steps_def)
qed

text \<open>
  Claim C1, amended. For every table with at least two entries (so for the orders 12,
  16 and 20) and every history buffer \<open>H\<close> of \<open>k\<close> entries, after one call of the step
  driver the buffer still has \<open>k\<close> entries, \<open>new[i] = H[i+1]\<close> for \<open>i = 0, ..., k-3\<close>, and
  \<open>new[k-2] = new[k-1] = f(x0, y[0])\<close>. The input's \<open>H[0]\<close> and \<open>H[k-1]\<close> are not in the new
  buffer.
\<close>

theorem Adams_Steps_history_shift:
  assumes "length f_history = STEPS c" and "2 \<le> STEPS c"
  shows "let new = sr_f_history (Adams_Steps c f y x0 h f_history tolerance iterations)
         in length new = STEPS c
            \<and> (\<forall>i. i + 2 < STEPS c \<longrightarrow> new ! i = f_history ! (i + 1))
            \<and> new ! (STEPS c - 2) = f x0 (fst y)
            \<and> new ! (STEPS c - 1) = f x0 (fst y)"
proof -
  let ?new = "sr_f_history (Adams_Steps c f y x0 h f_history tolerance iterations)"
  have len: "length ?new = STEPS c"
    using assms(1) by (simp add: Adams_Steps_history_length)
  have old: "?new ! i = f_history ! (i + 1)" if "i + 2 < STEPS c" for i
    using that assms(1) by (simp add: Adams_Steps_history_nth)
  have ar: "STEPS c - 2 < STEPS c" "\<not> STEPS c - 2 + 2 < STEPS c"
           "STEPS c - 1 < STEPS c" "\<not> STEPS c - 1 + 2 < STEPS c"
    using assms(2) by linarith+
  have a: "?new ! (STEPS c - 2) = f x0 (fst y)"
    using assms(1) ar(1,2) by (simp only: Adams_Steps_history_nth if_False)
  have b: "?new ! (STEPS c - 1) = f x0 (fst y)"
    using assms(1) ar(3,4) by (simp only: Adams_Steps_history_nth if_False)
  show ?thesis
    unfolding Let_def using len old a b by blast
qed

theorem Adams_Steps_history_shift_witness:
  "let H = [1, 2, 3, 4, 5, 6, 7, 8, 9, 10, 11, 12 :: real];
       new = sr_f_history (Adams_12_Steps (\<lambda>x y. x + y) (4, 0) 3 1 H 1 1)
   in length H = STEPS coeffs_12 \<and> 2 \<le> STEPS coeffs_12 \<and> length new = 12
      \<and> new ! 0 = 2 \<and> new ! 9 = 11 \<and> new ! 10 = 7 \<and> new ! 11 = 7"
proof -
  let ?H = "[1, 2, 3, 4, 5, 6, 7, 8, 9, 10, 11, 12 :: real]"
  let ?new = "sr_f_history (Adams_Steps coeffs_12 (\<lambda>x y. x + y) (4, 0) 3 1 ?H 1 1)"
  have l: "length ?H = STEPS coeffs_12" and k: "2 \<le> STEPS coeffs_12"
    by (simp_all add: STEPS_tables)
  note T = Adams_Steps_history_shift[OF l k, where f = "\<lambda>x y. x + y" and y = "(4, 0)" and ?x0.0 = 3
      and h = 1 and tolerance = 1 and iterations = 1, unfolded Let_def STEPS_tables]
  have len: "length ?new = 12"
    by (rule T[THEN conjunct1])
  have n0: "?new ! 0 = ?H ! (0 + 1)" and n9: "?new ! 9 = ?H ! (9 + 1)"
    by (rule T[THEN conjunct2, THEN conjunct1, rule_format]; simp)+
  have n10: "?new ! (12 - 2) = 3 + fst (4 :: real, 0 :: real)"
    by (rule T[THEN conjunct2, THEN conjunct2, THEN conjunct1])
  have n11: "?new ! (12 - 1) = 3 + fst (4 :: real, 0 :: real)"
    by (rule T[THEN conjunct2, THEN conjunct2, THEN conjunct2])
  show ?thesis
    unfolding Let_def Adams_12_Steps_def
    using l k len n0 n9 n10 n11 by simp
qed

subsection \<open>C2: the history builder\<close>

text \<open>
  Claim C2 says that the builder sets \<open>f_history[i] = f(x + i*h, y[i])\<close> for every
  \<open>i = 0, ..., k-1\<close>, as the comment above the routine does
  (\<^verbatim>\<open>f_history[11] = f(x+11*h,y[11])\<close>). The loop runs while \<^verbatim>\<open>i < STEPS-1\<close>: by
  \<open>Build_History_nth\<close> it sets the slots \<open>0, ..., k-2\<close> and leaves slot \<open>k-1\<close> as it
  found it. On a buffer holding 7 everywhere, with \<open>f(x, y) = x + y\<close>, \<open>y = 0\<close>, \<open>x = 0\<close> and
  \<open>h = 1\<close>, slot 10 of the 12-step builder becomes 10 and slot 11 stays 7, where the claim
  asks for \<open>f(11, 0) = 11\<close>; the same holds for slot 15 of the 16-step and slot 19 of the
  20-step builder.
\<close>

theorem Adams_Build_History_last_slot:
  "Adams_12_Build_History (\<lambda>x y. x + y) (replicate 12 7) (replicate 12 0) 0 1 ! 10 = 10
   \<and> Adams_12_Build_History (\<lambda>x y. x + y) (replicate 12 7) (replicate 12 0) 0 1 ! 11 = 7
   \<and> (\<lambda>x y. x + y) (0 + 11 * 1) (replicate 12 (0::real) ! 11) = 11
   \<and> Adams_16_Build_History (\<lambda>x y. x + y) (replicate 16 7) (replicate 16 0) 0 1 ! 15 = 7
   \<and> Adams_20_Build_History (\<lambda>x y. x + y) (replicate 20 7) (replicate 20 0) 0 1 ! 19 = 7"
  by (simp add: Adams_12_Build_History_def Adams_16_Build_History_def Adams_20_Build_History_def
        Build_History_nth STEPS_tables abscissa_real)

subsection \<open>C3: the convergence test\<close>

text \<open>
  Claim C3. For all doubles \<open>d0\<close>, \<open>d1\<close>, \<open>tol\<close>, NaN and the infinities among them,
  \<open>hasConverged d0 d1 tol\<close> returns 1 exactly when \<open>\<bar>d0 - d1\<bar> < B\<close>, and 0 otherwise, where
  the bound \<open>B\<close> is the rounded product \<open>\<bar>d1\<bar> * tol\<close> when \<open>min \<bar>d0\<bar> \<bar>d1\<bar> > 1\<close> and \<open>tol\<close>
  otherwise, and the comparison with \<open>B\<close> is strict. Unless \<open>d0\<close> or \<open>d1\<close> is NaN, the
  conjunction the code tests, \<open>\<bar>d0\<bar> > 1\<close> and \<open>\<bar>d1\<bar> > 1\<close>, is the condition
  \<open>min \<bar>d0\<bar> \<bar>d1\<bar> > 1\<close>; when one of them is NaN the minimum, \<open>if a \<le> b then a else b\<close>, is
  the other one or NaN, but then \<open>\<bar>d0 - d1\<bar>\<close> is NaN and is below no bound.

  The same holds in every linearly ordered type that has the operations, the reals
  among them, with no law of the arithmetic assumed: the bound is then the product as
  the code forms it, \<open>epsilon * \<bar>y1\<bar>\<close>, which is the \<open>\<bar>y1\<bar> * epsilon\<close> of the claim where
  these two are equal.
\<close>

theorem hasConverged_rule:
  fixes d0 d1 tol :: binary64 and y0 y1 epsilon :: "'a::{one,minus,times,abs,linorder}"
  shows "hasConverged d0 d1 tol =
           (if \<bar>d0 - d1\<bar> < (if 1 < min \<bar>d0\<bar> \<bar>d1\<bar> then \<bar>d1\<bar> * tol else tol) then 1 else 0)
         \<and> (\<not> isnan d0 \<and> \<not> isnan d1 \<longrightarrow> (1 < \<bar>d0\<bar> \<and> 1 < \<bar>d1\<bar>) = (1 < min \<bar>d0\<bar> \<bar>d1\<bar>))
         \<and> hasConverged y0 y1 epsilon =
             (if \<bar>y0 - y1\<bar> < (if 1 < min \<bar>y0\<bar> \<bar>y1\<bar> then epsilon * \<bar>y1\<bar> else epsilon)
              then 1 else 0)
         \<and> (1 < \<bar>y0\<bar> \<and> 1 < \<bar>y1\<bar>) = (1 < min \<bar>y0\<bar> \<bar>y1\<bar>)
         \<and> (\<bar>y1\<bar> * epsilon = epsilon * \<bar>y1\<bar> \<longrightarrow>
              hasConverged y0 y1 epsilon =
                (if \<bar>y0 - y1\<bar> < (if 1 < min \<bar>y0\<bar> \<bar>y1\<bar> then \<bar>y1\<bar> * epsilon else epsilon)
                 then 1 else 0))"
proof -
  have "(1 < \<bar>d0\<bar> \<and> 1 < \<bar>d1\<bar>) = (1 < min \<bar>d0\<bar> \<bar>d1\<bar>)" if "\<not> isnan d0 \<and> \<not> isnan d1"
    using that by (intro min_binary64) (simp_all add: isnan_def)
  moreover have "hasConverged y0 y1 epsilon =
                (if \<bar>y0 - y1\<bar> < (if 1 < min \<bar>y0\<bar> \<bar>y1\<bar> then \<bar>y1\<bar> * epsilon else epsilon)
                 then 1 else 0)" if "\<bar>y1\<bar> * epsilon = epsilon * \<bar>y1\<bar>"
    unfolding that by (rule hasConverged_linorder)
  ultimately show ?thesis
    using hasConverged_binary64[of d0 d1 tol] hasConverged_linorder(1)[of y0 y1 epsilon]
      hasConverged_linorder(2)[of y0 y1]
    by blast
qed

text \<open>
  Over the reals: the three examples of the specification, a relative-mode example, and
  the boundary \<open>\<bar>y0 - y1\<bar> = B\<close>, where the strict comparison fails. Over the doubles: the
  three examples of the specification again; the inputs 2, 3 and \<^verbatim>\<open>0x1.5555555555556p-2\<close>,
  where the product \<open>1 + 2\<^sup>-\<^sup>5\<^sup>3\<close> is rounded to 1 and the test fails on the doubles while
  it succeeds on the reals; NaN in each argument; two infinities; an infinite tolerance.
\<close>

theorem hasConverged_rule_witness:
  "hasConverged (100::real) (100 + 1 / 10^7) (1 / 10^6) = 1
   \<and> hasConverged (1/2::real) (1/2 + 1 / 10^7) (1 / 10^6) = 1
   \<and> hasConverged (1/2::real) (1/2 + 1 / 10^5) (1 / 10^6) = 0
   \<and> hasConverged (2::real) 4 1 = 1
   \<and> hasConverged (1::real) 2 1 = 0
   \<and> \<bar>3::real\<bar> * (6004799503160662 / 18014398509481984) =
       6004799503160662 / 18014398509481984 * \<bar>3\<bar>
   \<and> hasConverged (2::real) 3 (6004799503160662 / 18014398509481984) = 1
   \<and> \<not> isnan (Double 2) \<and> \<not> isnan (Double 3)
   \<and> 1 < \<bar>Double 2\<bar> \<and> 1 < \<bar>Double 3\<bar> \<and> 1 < min \<bar>Double 2\<bar> \<bar>Double 3\<bar>
   \<and> \<bar>Double 3\<bar> * Double (6004799503160662 / 18014398509481984) = Double 1
   \<and> hasConverged (Double 2) (Double 3) (Double (6004799503160662 / 18014398509481984)) = 0
   \<and> hasConverged (literal 100) (literal (100 + 1 / 10^7)) (literal (1 / 10^6)) = 1
   \<and> hasConverged (literal (1/2)) (literal (1/2 + 1 / 10^7)) (literal (1 / 10^6)) = 1
   \<and> hasConverged (literal (1/2)) (literal (1/2 + 1 / 10^5)) (literal (1 / 10^6)) = 0
   \<and> hasConverged NaN (Double 3) (Double 1) = 0
   \<and> hasConverged (Double 3) NaN (Double 1) = 0
   \<and> hasConverged (Double 3) (Double 3) NaN = 0
   \<and> hasConverged PosInf PosInf (Double 1) = 0
   \<and> hasConverged (Double 3) (Double 2) PosInf = 1"
proof -
  let ?e = "6004799503160662 / 18014398509481984"
  note R = hasConverged_rule[where 'a = real, THEN conjunct2, THEN conjunct2]
  have r: "hasConverged (100::real) (100 + 1 / 10^7) (1 / 10^6) = 1"
      "hasConverged (1/2::real) (1/2 + 1 / 10^7) (1 / 10^6) = 1"
      "hasConverged (1/2::real) (1/2 + 1 / 10^5) (1 / 10^6) = 0"
      "hasConverged (2::real) 4 1 = 1"
      "hasConverged (1::real) 2 1 = 0"
    using R[THEN conjunct1, of "100::real" "100 + 1 / 10^7" "1 / 10^6"]
          R[THEN conjunct1, of "1/2::real" "1/2 + 1 / 10^7" "1 / 10^6"]
          R[THEN conjunct1, of "1/2::real" "1/2 + 1 / 10^5" "1 / 10^6"]
          R[THEN conjunct1, of "2::real" 4 1]
          R[THEN conjunct1, of "1::real" 2 1]
    by simp_all
  have c: "\<bar>3::real\<bar> * ?e = ?e * \<bar>3\<bar>" by simp
  have r3: "hasConverged (2::real) 3 ?e = 1"
    using R[THEN conjunct2, THEN conjunct2, THEN mp, OF c, of 2] by simp
  have n: "\<not> isnan (Double 2) \<and> \<not> isnan (Double 3)"
    by (simp add: isnan_def)
  have m: "1 < \<bar>Double 2\<bar> \<and> 1 < \<bar>Double 3\<bar>"
    by code_simp
  have m': "1 < min \<bar>Double 2\<bar> \<bar>Double 3\<bar>"
    using hasConverged_rule[THEN conjunct2, THEN conjunct1, THEN mp, OF n] m by simp
  have p: "\<bar>Double 3\<bar> * Double ?e = Double 1"
    by code_simp
  note D = hasConverged_rule[THEN conjunct1]
  have d1: "hasConverged (Double 2) (Double 3) (Double ?e) = 0"
    by (rule trans[OF D]) code_simp
  have d2: "hasConverged (literal 100) (literal (100 + 1 / 10^7)) (literal (1 / 10^6)) = 1"
    by (rule trans[OF D]) code_simp
  have d3: "hasConverged (literal (1/2)) (literal (1/2 + 1 / 10^7)) (literal (1 / 10^6)) = 1"
    by (rule trans[OF D]) code_simp
  have d4: "hasConverged (literal (1/2)) (literal (1/2 + 1 / 10^5)) (literal (1 / 10^6)) = 0"
    by (rule trans[OF D]) code_simp
  have d5: "hasConverged NaN (Double 3) (Double 1) = 0"
    by (rule trans[OF D]) code_simp
  have d6: "hasConverged (Double 3) NaN (Double 1) = 0"
    by (rule trans[OF D]) code_simp
  have d7: "hasConverged (Double 3) (Double 3) NaN = 0"
    by (rule trans[OF D]) code_simp
  have d8: "hasConverged PosInf PosInf (Double 1) = 0"
    by (rule trans[OF D]) code_simp
  have d9: "hasConverged (Double 3) (Double 2) PosInf = 1"
    by (rule trans[OF D]) code_simp
  show ?thesis
    by (intro conjI r c r3 n[THEN conjunct1] n[THEN conjunct2] m[THEN conjunct1] m[THEN conjunct2]
          m' p d1 d2 d3 d4 d5 d6 d7 d8 d9)
qed

subsection \<open>C4: the corrector's fixed contribution and its iteration\<close>

text \<open>
  Claim C4. For every table (so for the orders 12, 16 and 20), the corrector first
  computes, once and before the iteration, \<open>delta\<close> as the sum of
  \<open>moulton[j] * f_history[k-1-j]\<close> over \<open>j = 1, ..., k-1\<close> (the newest of the \<open>k-1\<close>
  samples it reads, \<open>f_history[k-2]\<close>, meets \<open>moulton[1]\<close>; \<open>moulton[0]\<close> is left out).
  Every iteration then replaces \<open>y[1]\<close> by
  \<open>y[0] + h * divisor * (moulton[0] * f(x, y[1]) + delta)\<close> with that same \<open>delta\<close>: after
  \<open>m\<close> iterations \<open>y[1]\<close> is the \<open>m\<close>-fold image of the initial estimate under this one
  update. The loop stops before the budget is used up only when the test
  \<open>hasConverged(previous y[1], new y[1], tolerance)\<close> succeeds, and never runs on after
  an iteration on which it succeeded. Here \<open>m = cr_calls r\<close> is the number of iterations
  performed.
\<close>

theorem Adams_Moulton_Steps_iteration:
  "let G = spec_corrector_update c f y x h f_history;
       r = Adams_Moulton_Steps c f y x h f_history tolerance iterations;
       m = cr_calls r
   in Adams_Moulton_delta_loop c f_history 1 (int (STEPS c) - 2) 0 = spec_delta c f_history
      \<and> cr_y1 r = spec_estimate G (snd y) m
      \<and> int m \<le> max 0 iterations
      \<and> (0 < iterations \<longrightarrow> 1 \<le> m)
      \<and> (\<forall>j. 1 \<le> j \<and> j < m \<longrightarrow> \<not> spec_converged_on G (snd y) tolerance j)
      \<and> (int m < iterations \<longrightarrow> spec_converged_on G (snd y) tolerance m)"
proof (cases rule: Moulton_Steps_cases[of iterations c f y x h f_history tolerance])
  case (converged m)
  then show ?thesis
    using Moulton_delta_eq[of c f_history] by (simp add: Let_def)
next
  case exhausted
  have "\<forall>j. 1 \<le> j \<and> j < nat iterations \<longrightarrow>
          \<not> spec_converged_on (spec_corrector_update c f y x h f_history) (snd y) tolerance j"
    using exhausted(1) by auto
  moreover have "0 < iterations \<longrightarrow> 1 \<le> nat iterations" by linarith
  ultimately show ?thesis
    using exhausted(2) Moulton_delta_eq[of c f_history] by (simp add: Let_def)
qed

text \<open>The first run above: two iterations, the second one converged.\<close>

theorem Adams_Moulton_Steps_iteration_witness:
  "let G = spec_corrector_update coeffs_12 (\<lambda>x y. y) (0, 1) 0 (8709120 / 4777223) (replicate 12 0);
       r = Adams_Moulton_Steps coeffs_12 (\<lambda>x y. y) (0, 1) 0 (8709120 / 4777223)
             (replicate 12 0) (1 / 2) 3
   in cr_calls r = 2 \<and> cr_y1 r = 1 / 4 \<and> cr_y1 r = spec_estimate G 1 2
      \<and> (0::int) < 3 \<and> int (cr_calls r) < 3
      \<and> \<not> spec_converged_on G 1 (1 / 2) 1 \<and> spec_converged_on G 1 (1 / 2) 2"
proof -
  let ?G = "spec_corrector_update coeffs_12 (\<lambda>x y. y) (0, 1) 0 (8709120 / 4777223) (replicate 12 0)"
  let ?r = "Adams_Moulton_Steps coeffs_12 (\<lambda>x y. y) (0, 1) 0 (8709120 / 4777223)
             (replicate 12 0) (1 / 2) 3"
  have run: "?r = \<lparr>cr_return = 2, cr_y1 = 1 / 4, cr_calls = 2\<rparr>"
    using example_run_12 by (simp only: Adams_Moulton_11_Steps_def)
  have calls: "cr_calls ?r = 2" and y1: "cr_y1 ?r = 1 / 4"
    by (simp_all only: run corrector_result.simps)
  note T = Adams_Moulton_Steps_iteration[where c = coeffs_12 and f = "\<lambda>x y. y"
      and y = "(0, 1)" and x = 0 and h = "8709120 / 4777223" and f_history = "replicate 12 0"
      and tolerance = "1 / 2" and iterations = 3, unfolded Let_def snd_conv calls]
  have est: "cr_y1 ?r = spec_estimate ?G 1 2"
    by (rule T[THEN conjunct2, THEN conjunct1])
  have before: "\<forall>j. 1 \<le> j \<and> j < 2 \<longrightarrow> \<not> spec_converged_on ?G 1 (1 / 2) j"
    by (rule T[THEN conjunct2, THEN conjunct2, THEN conjunct2, THEN conjunct2, THEN conjunct1])
  have early: "int 2 < 3 \<longrightarrow> spec_converged_on ?G 1 (1 / 2) 2"
    by (rule T[THEN conjunct2, THEN conjunct2, THEN conjunct2, THEN conjunct2, THEN conjunct2])
  have lt: "int (cr_calls ?r) < 3" "(0::int) < 3"
    by (simp_all add: calls)
  have c1: "\<not> spec_converged_on ?G 1 (1 / 2) 1"
    using before by simp
  have c2: "spec_converged_on ?G 1 (1 / 2) 2"
    using early by simp
  show ?thesis
    unfolding Let_def
    by (intro conjI calls y1 est lt c1 c2)
qed

subsection \<open>C5: the value returned by the corrector\<close>

text \<open>
  The claim as worded covers every budget \<open>iterations \<ge> 1\<close>. The value returned is the C
  \<^verbatim>\<open>int\<close> \<open>i + 1\<close>, and no \<^verbatim>\<open>int\<close> is greater than \<open>INT_MAX = 2147483647\<close>: with that budget
  and a tolerance of 0, which no difference is below, the 12-step corrector performs all
  2147483647 iterations without convergence and returns \<open>- 2147483648\<close>, which is not
  greater than the budget.
\<close>

theorem Adams_Moulton_Steps_return_counterexample:
  "cr_calls (Adams_Moulton_11_Steps (\<lambda>x y. 0) (0, 0) 0 1 (replicate 12 0) 0 2147483647) = 2147483647
   \<and> cr_return (Adams_Moulton_11_Steps (\<lambda>x y. 0) (0, 0) 0 1 (replicate 12 0) 0 2147483647) =
       - 2147483648
   \<and> \<not> 2147483647 <
       cr_return (Adams_Moulton_11_Steps (\<lambda>x y. 0) (0, 0) 0 1 (replicate 12 0) 0 2147483647)"
proof -
  have "Adams_Moulton_Steps coeffs_12 (\<lambda>x y. 0) (0, 0) 0 1 (replicate 12 0) 0 2147483647 =
          \<lparr>cr_return = wrap_int (max 0 2147483647 + 1),
           cr_y1 = spec_estimate (spec_corrector_update coeffs_12 (\<lambda>x y. 0) (0, 0) 0 1
                     (replicate 12 0)) (snd (0, 0 :: real)) (nat 2147483647),
           cr_calls = nat 2147483647\<rparr>"
    using Moulton_Steps_exhausts[of 2147483647 coeffs_12 "\<lambda>x y. 0" "(0, 0)" 0 1 "replicate 12 0" 0]
    by (simp add: never_converged_zero_tolerance)
  then show ?thesis
    by (simp add: Adams_Moulton_11_Steps_def wrap_int_def)
qed

text \<open>
  Claim C5, amended. For every table and every budget \<open>iterations\<close> with
  \<open>1 \<le> iterations < INT_MAX\<close>: if the convergence test succeeds for the first time on
  iteration \<open>m\<close> (counted from 1, \<open>m \<le> iterations\<close>), the corrector returns \<open>m\<close>, the number
  of iterations performed; the value returned is greater than \<open>iterations\<close> exactly when
  all \<open>iterations\<close> iterations were performed and the test succeeded on none of them, and
  it is then \<open>iterations + 1\<close>. The corrector always returns a count between 1 and
  \<open>iterations + 1\<close>: the model has no other outcome, as the C routine has no error code and
  raises nothing.
\<close>

theorem Adams_Moulton_Steps_return:
  assumes "1 \<le> iterations" and "iterations < 2147483647"
  shows "let G = spec_corrector_update c f y x h f_history;
             r = Adams_Moulton_Steps c f y x h f_history tolerance iterations
         in (\<forall>m. 1 \<le> m \<and> int m \<le> iterations
                  \<and> spec_converged_on G (snd y) tolerance m
                  \<and> (\<forall>j. 1 \<le> j \<and> j < m \<longrightarrow> \<not> spec_converged_on G (snd y) tolerance j)
                \<longrightarrow> cr_return r = int m \<and> cr_calls r = m)
            \<and> (iterations < cr_return r \<longleftrightarrow>
                 (\<forall>j. 1 \<le> j \<and> int j \<le> iterations \<longrightarrow> \<not> spec_converged_on G (snd y) tolerance j))
            \<and> (iterations < cr_return r \<longrightarrow>
                 cr_return r = iterations + 1 \<and> cr_calls r = nat iterations)
            \<and> 1 \<le> cr_return r \<and> cr_return r \<le> iterations + 1"
proof -
  let ?conv = "spec_converged_on (spec_corrector_update c f y x h f_history) (snd y) tolerance"
  let ?r = "Adams_Moulton_Steps c f y x h f_history tolerance iterations"
  have "(\<forall>m. 1 \<le> m \<and> int m \<le> iterations \<and> ?conv m \<and> (\<forall>j. 1 \<le> j \<and> j < m \<longrightarrow> \<not> ?conv j)
                \<longrightarrow> cr_return ?r = int m \<and> cr_calls ?r = m)
        \<and> (iterations < cr_return ?r \<longleftrightarrow> (\<forall>j. 1 \<le> j \<and> int j \<le> iterations \<longrightarrow> \<not> ?conv j))
        \<and> (iterations < cr_return ?r \<longrightarrow>
              cr_return ?r = iterations + 1 \<and> cr_calls ?r = nat iterations)
        \<and> 1 \<le> cr_return ?r \<and> cr_return ?r \<le> iterations + 1"
  proof (cases rule: Moulton_Steps_cases[of iterations c f y x h f_history tolerance])
    case (converged m)
    have w: "wrap_int (int m) = int m"
      using converged(1,2) assms(2) by (intro wrap_int_id) linarith+
    have run: "cr_return ?r = int m" "cr_calls ?r = m"
      by (simp_all add: converged(5) w)
    have p1: "cr_return ?r = int m' \<and> cr_calls ?r = m'"
      if a: "1 \<le> m' \<and> int m' \<le> iterations \<and> ?conv m' \<and> (\<forall>j. 1 \<le> j \<and> j < m' \<longrightarrow> \<not> ?conv j)"
      for m'
    proof -
      have "\<not> m' < m" using converged(4) a by blast
      moreover have "\<not> m < m'" using converged(1,3) a by blast
      ultimately have "m' = m" by linarith
      then show ?thesis by (simp add: run)
    qed
    have some: "\<not> (\<forall>j. 1 \<le> j \<and> int j \<le> iterations \<longrightarrow> \<not> ?conv j)"
      using converged(1,2,3) by blast
    have le: "\<not> iterations < cr_return ?r"
      using converged(2) by (simp add: run)
    have p4: "1 \<le> cr_return ?r" "cr_return ?r \<le> iterations + 1"
      using converged(1,2) by (simp_all add: run)
    show ?thesis
      using p1 some le p4 by blast
  next
    case exhausted
    have w: "wrap_int (max 0 iterations + 1) = iterations + 1"
      using assms by (simp add: wrap_int_id)
    have ret: "cr_return ?r = iterations + 1" "cr_calls ?r = nat iterations"
      by (simp_all add: exhausted(2) w)
    have p1: "cr_return ?r = int m' \<and> cr_calls ?r = m'"
      if a: "1 \<le> m' \<and> int m' \<le> iterations \<and> ?conv m' \<and> (\<forall>j. 1 \<le> j \<and> j < m' \<longrightarrow> \<not> ?conv j)"
      for m'
      using exhausted(1) a by blast
    have gt: "iterations < cr_return ?r" "1 \<le> cr_return ?r" "cr_return ?r \<le> iterations + 1"
      using assms by (simp_all add: ret)
    show ?thesis
      using p1 exhausted(1) ret gt by blast
  qed
  then show ?thesis
    unfolding Let_def .
qed

text \<open>Both runs above: convergence on iteration 2 of 3, and a budget of 3 used up.\<close>

theorem Adams_Moulton_Steps_return_witness:
  "let G = spec_corrector_update coeffs_12 (\<lambda>x y. y) (0, 1) 0 (8709120 / 4777223) (replicate 12 0);
       r = Adams_Moulton_Steps coeffs_12 (\<lambda>x y. y) (0, 1) 0 (8709120 / 4777223)
             (replicate 12 0) (1 / 2) 3;
       r0 = Adams_Moulton_Steps coeffs_12 (\<lambda>x y. y) (0, 1) 0 (8709120 / 4777223)
             (replicate 12 0) 0 3
   in (1::int) \<le> 3 \<and> (3::int) < 2147483647
      \<and> \<not> spec_converged_on G 1 (1 / 2) 1 \<and> spec_converged_on G 1 (1 / 2) 2
      \<and> cr_return r = 2 \<and> cr_calls r = 2 \<and> \<not> 3 < cr_return r
      \<and> \<not> spec_converged_on G 1 0 1 \<and> \<not> spec_converged_on G 1 0 2 \<and> \<not> spec_converged_on G 1 0 3
      \<and> 3 < cr_return r0 \<and> cr_return r0 = 4 \<and> cr_calls r0 = 3"
proof -
  let ?G = "spec_corrector_update coeffs_12 (\<lambda>x y. y) (0, 1) 0 (8709120 / 4777223) (replicate 12 0)"
  let ?r = "Adams_Moulton_Steps coeffs_12 (\<lambda>x y. y) (0, 1) 0 (8709120 / 4777223)
             (replicate 12 0) (1 / 2) 3"
  let ?rz = "Adams_Moulton_Steps coeffs_12 (\<lambda>x y. y) (0, 1) 0 (8709120 / 4777223)
             (replicate 12 0) 0 3"
  have le: "(1::int) \<le> 3" and lt: "(3::int) < 2147483647" by simp_all
  have c1: "\<not> spec_converged_on ?G 1 (1 / 2) 1"
    unfolding example_update_12 using example_converged_12(1) by simp
  have c2: "spec_converged_on ?G 1 (1 / 2) 2"
    unfolding example_update_12 using example_converged_12(2) by (simp add: numeral_2_eq_2)
  have first: "\<forall>j. 1 \<le> j \<and> j < 2 \<longrightarrow> \<not> spec_converged_on ?G 1 (1 / 2) j"
  proof (intro allI impI)
    fix j :: nat assume "1 \<le> j \<and> j < 2"
    then have "j = 1" by linarith
    then show "\<not> spec_converged_on ?G 1 (1 / 2) j" using c1 by simp
  qed
  note T = Adams_Moulton_Steps_return[OF le lt, where c = coeffs_12 and f = "\<lambda>x y. y"
      and y = "(0, 1)" and x = 0 and h = "8709120 / 4777223" and f_history = "replicate 12 0"
      and tolerance = "1 / 2", unfolded Let_def snd_conv]
  have P: "1 \<le> (2::nat) \<and> int 2 \<le> 3 \<and> spec_converged_on ?G 1 (1 / 2) 2
          \<and> (\<forall>j. 1 \<le> j \<and> j < 2 \<longrightarrow> \<not> spec_converged_on ?G 1 (1 / 2) j)"
    using c2 first by simp
  have "cr_return ?r = int 2 \<and> cr_calls ?r = 2"
    by (rule T[THEN conjunct1, rule_format, of 2, OF P])
  then have r: "cr_return ?r = 2" "cr_calls ?r = 2" "\<not> 3 < cr_return ?r" by simp_all
  note T0 = Adams_Moulton_Steps_return[OF le lt, where c = coeffs_12 and f = "\<lambda>x y. y"
      and y = "(0, 1)" and x = 0 and h = "8709120 / 4777223" and f_history = "replicate 12 0"
      and tolerance = 0, unfolded Let_def snd_conv]
  have never: "\<not> spec_converged_on ?G 1 0 j" for j
    by (rule never_converged_zero_tolerance)
  have none: "\<forall>j. 1 \<le> j \<and> int j \<le> 3 \<longrightarrow> \<not> spec_converged_on ?G 1 0 j"
    by (intro allI impI never)
  have gt: "3 < cr_return ?rz"
    by (rule iffD2[OF T0[THEN conjunct2, THEN conjunct1] none])
  have "cr_return ?rz = 3 + 1 \<and> cr_calls ?rz = nat 3"
    by (rule T0[THEN conjunct2, THEN conjunct2, THEN conjunct1, THEN mp, OF gt])
  then have r0: "cr_return ?rz = 4" "cr_calls ?rz = 3" by simp_all
  show ?thesis
    unfolding Let_def
    by (intro conjI le lt c1 c2 r gt r0 never)
qed

subsection \<open>C6: the predictor\<close>

text \<open>
  Claim C6. For every table (so for the orders 12, 16 and 20), the predictor returns
  \<open>y + h * divisor * S\<close>, where \<open>S\<close> is the sum of \<open>bashforth[j] * f_history[k-1-j]\<close>
  over \<open>j = 0, ..., k-1\<close>: \<open>bashforth[0]\<close> meets the newest sample \<open>f_history[k-1]\<close>. The
  sum is accumulated from \<open>0\<close> with \<open>j\<close> ascending, each term added on the right of the
  accumulator. The result is a value for every input: the routine has no loop other than
  this bounded one and no failure branch. Nothing is assumed of \<open>+\<close> and \<open>*\<close>.
\<close>

theorem Adams_Bashforth_Steps_sum:
  "Adams_Bashforth_Steps c y h f_history =
     y + h * divisor c *
       foldl (\<lambda>acc j. acc + bashforth c ! j * f_history ! (STEPS c - 1 - j)) 0 [0..<STEPS c]"
  by (simp add: Adams_Bashforth_Steps_def Bashforth_loop_foldl)

text \<open>The 12-step routine on an arbitrary history, written out.\<close>

theorem Adams_Bashforth_Steps_sum_witness:
  "\<forall>y h f0 f1 f2 f3 f4 f5 f6 f7 f8 f9 f10 f11.
     Adams_Bashforth_12_Steps y h [f0, f1, f2, f3, f4, f5, f6, f7, f8, f9, f10, f11] =
       y + h * (1 / 958003200) *
        (0 + 4527766399 * f11 + - 19433810163 * f10 + 61633227185 * f9
           + - 135579356757 * f8 + 214139355366 * f7 + - 247741639374 * f6
           + 211103573298 * f5 + - 131365867290 * f4 + 58189107627 * f3
           + - 17410248271 * f2 + 3158642445 * f1 + - 262747265 * f0)"
  unfolding Adams_Bashforth_12_Steps_def
  by (simp only: Adams_Bashforth_Steps_sum STEPS_tables upt_12 foldl.simps)
     (simp add: coeffs_12_def)

subsection \<open>C7: a budget of zero iterations\<close>

text \<open>
  Claim C7. For every table, called with \<open>iterations = 0\<close> the corrector returns 1,
  whatever \<open>f\<close>, \<open>y\<close>, \<open>x\<close>, \<open>h\<close>, the history and the tolerance are. (The loop body is
  not entered: \<open>y[1]\<close> is left as it was and \<open>f\<close> is not called.)
\<close>

theorem Adams_Moulton_Steps_zero_budget:
  "Adams_Moulton_Steps c f y x h f_history tolerance 0 =
     \<lparr>cr_return = 1, cr_y1 = snd y, cr_calls = 0\<rparr>"
  by (simp add: Moulton_Steps_eq iterate_unfold[where N = 0] wrap_int_def)

theorem Adams_Moulton_Steps_zero_budget_witness:
  "cr_return (Adams_Moulton_11_Steps (\<lambda>x y. y) (1, 2) 0 1 (replicate 12 1) 1 0) = 1
   \<and> cr_return (Adams_Moulton_15_Steps (\<lambda>x y. y) (1, 2) 0 1 (replicate 16 1) 1 0) = 1
   \<and> cr_return (Adams_Moulton_19_Steps (\<lambda>x y. y) (1, 2) 0 1 (replicate 20 1) 1 0) = 1"
  unfolding Adams_Moulton_11_Steps_def Adams_Moulton_15_Steps_def Adams_Moulton_19_Steps_def
  by (simp only: Adams_Moulton_Steps_zero_budget corrector_result.simps simp_thms)

subsection \<open>C8: the coefficients add up to the reciprocal of the divisor\<close>



subsection \<open>C9: how often the derivative is evaluated\<close>

text \<open>
  Claim C9. For every table and every budget, one call of the corrector evaluates \<open>f\<close> at
  most \<open>iterations\<close> times: once in each iteration performed and not at all when
  \<open>iterations \<le> 0\<close>; for a budget below \<open>INT_MAX\<close>, where the value returned is not wrapped
  around, that is as many times as the smaller of the value returned and the budget. One
  call of the step driver evaluates \<open>f\<close> once more than the corrector call it makes, hence
  at most \<open>1 + iterations\<close> times. Neither bound depends on whether the iteration
  converges.
\<close>

theorem Adams_Moulton_Steps_calls:
  "cr_calls (Adams_Moulton_Steps c f y x h f_history tolerance iterations) \<le> nat iterations
   \<and> (iterations < 2147483647 \<longrightarrow>
        int (cr_calls (Adams_Moulton_Steps c f y x h f_history tolerance iterations)) =
          max 0 (min iterations (cr_return (Adams_Moulton_Steps c f y x h f_history tolerance iterations))))
   \<and> sr_calls (Adams_Steps c f y x0 h f_history tolerance iterations) =
       1 + cr_calls (Adams_Moulton_Steps c f (fst y, Adams_Bashforth_Steps c (fst y) h
              (f_history[STEPS c - 1 := f x0 (fst y)])) (x0 + h) h
              (Adams_shift_loop c 0 (f_history[STEPS c - 1 := f x0 (fst y)])) tolerance iterations)
   \<and> sr_calls (Adams_Steps c f y x0 h f_history tolerance iterations) \<le> 1 + nat iterations"
proof -
  have calls: "cr_calls (Adams_Moulton_Steps c f y x h H tol N) \<le> nat N
      \<and> (N < 2147483647 \<longrightarrow> int (cr_calls (Adams_Moulton_Steps c f y x h H tol N)) =
            max 0 (min N (cr_return (Adams_Moulton_Steps c f y x h H tol N))))"
    for f y x h H tol N and c :: "'a coeffs"
  proof (cases rule: Moulton_Steps_cases[of N c f y x h H tol])
    case (converged m)
    have "wrap_int (int m) = int m" if "N < 2147483647"
      using converged(1,2) that by (intro wrap_int_id) linarith+
    then show ?thesis
      using converged(1,2) by (simp add: converged(5))
  next
    case exhausted
    have "wrap_int (max 0 N + 1) = max 0 N + 1" if "N < 2147483647"
      using that by (intro wrap_int_id) linarith+
    then show ?thesis
      by (simp add: exhausted(2))
  qed
  have sr: "sr_calls (Adams_Steps c f y x0 h f_history tolerance iterations) =
       1 + cr_calls (Adams_Moulton_Steps c f (fst y, Adams_Bashforth_Steps c (fst y) h
              (f_history[STEPS c - 1 := f x0 (fst y)])) (x0 + h) h
              (Adams_shift_loop c 0 (f_history[STEPS c - 1 := f x0 (fst y)])) tolerance iterations)"
    by (simp add: Adams_Steps_def Let_def)
  show ?thesis
    unfolding sr
    using calls[of c f y x h f_history tolerance iterations]
      calls[of c f "(fst y, Adams_Bashforth_Steps c (fst y) h (f_history[STEPS c - 1 := f x0 (fst y)]))"
         "x0 + h" h "Adams_shift_loop c 0 (f_history[STEPS c - 1 := f x0 (fst y)])" tolerance iterations]
    by linarith
qed

text \<open>Budgets 3, 0 and -2 for the 12-step corrector, and budget 3 for the three step
  drivers; for the first run of the 12-step corrector above, the count of calls from the
  value returned.\<close>

theorem Adams_Moulton_Steps_calls_witness:
  "cr_calls (Adams_Moulton_11_Steps (\<lambda>x y. y) (0, 1) 0 1 (replicate 12 0) (1 / 2) 3) \<le> 3
   \<and> cr_calls (Adams_Moulton_11_Steps (\<lambda>x y. y) (0, 1) 0 1 (replicate 12 0) (1 / 2) 0) = 0
   \<and> cr_calls (Adams_Moulton_11_Steps (\<lambda>x y. y) (0, 1) 0 1 (replicate 12 0) (1 / 2) (- 2)) = 0
   \<and> sr_calls (Adams_12_Steps (\<lambda>x y. y) (0, 1) 0 1 (replicate 12 0) (1 / 2) 3) \<le> 4
   \<and> sr_calls (Adams_16_Steps (\<lambda>x y. y) (0, 1) 0 1 (replicate 16 0) (1 / 2) 3) \<le> 4
   \<and> sr_calls (Adams_20_Steps (\<lambda>x y. y) (0, 1) 0 1 (replicate 20 0) (1 / 2) 3) \<le> 4
   \<and> (3::int) < 2147483647
   \<and> cr_return (Adams_Moulton_11_Steps (\<lambda>x y. y) (0, 1) 0 (8709120 / 4777223)
         (replicate 12 0) (1 / 2) 3) = 2
   \<and> int (cr_calls (Adams_Moulton_11_Steps (\<lambda>x y. y) (0, 1) 0 (8709120 / 4777223)
         (replicate 12 0) (1 / 2) 3)) = max 0 (min 3 2)"
proof -
  have a: "cr_calls (Adams_Moulton_Steps coeffs_12 (\<lambda>x y. y) (0, 1) 0 1 (replicate 12 0) (1 / 2) N)
             \<le> nat N" for N
    by (rule Adams_Moulton_Steps_calls[THEN conjunct1])
  have b: "sr_calls (Adams_Steps c (\<lambda>x y. y) (0, 1) 0 1 H (1 / 2) 3) \<le> 1 + nat 3"
    for c :: "real coeffs" and H
    by (rule Adams_Moulton_Steps_calls[THEN conjunct2, THEN conjunct2, THEN conjunct2])
  have lt: "(3::int) < 2147483647" by simp
  have ret: "cr_return (Adams_Moulton_Steps coeffs_12 (\<lambda>x y. y) (0, 1) 0 (8709120 / 4777223)
         (replicate 12 0) (1 / 2) 3) = 2"
    using example_run_12 by (simp add: Adams_Moulton_11_Steps_def)
  have "int (cr_calls (Adams_Moulton_Steps coeffs_12 (\<lambda>x y. y) (0, 1) 0 (8709120 / 4777223)
         (replicate 12 0) (1 / 2) 3)) =
       max 0 (min 3 (cr_return (Adams_Moulton_Steps coeffs_12 (\<lambda>x y. y) (0, 1) 0
         (8709120 / 4777223) (replicate 12 0) (1 / 2) 3)))"
    by (rule Adams_Moulton_Steps_calls[THEN conjunct2, THEN conjunct1, THEN mp, OF lt])
  then have c: "int (cr_calls (Adams_Moulton_Steps coeffs_12 (\<lambda>x y. y) (0, 1) 0 (8709120 / 4777223)
         (replicate 12 0) (1 / 2) 3)) = max 0 (min 3 2)"
    by (simp only: ret)
  show ?thesis
    unfolding Adams_Moulton_11_Steps_def Adams_12_Steps_def Adams_16_Steps_def Adams_20_Steps_def
    using a[of 3] a[of 0] a[of "- 2"] b[of coeffs_12 "replicate 12 0"]
      b[of coeffs_16 "replicate 16 0"] b[of coeffs_20 "replicate 20 0"] ret c
    by simp
qed

subsection \<open>C10: the last two slots of the history\<close>

text \<open>
  Claim C10. For every table with at least two entries (so for the orders 12, 16 and 20)
  and every history buffer of \<open>k\<close> entries, after a call of the step driver the last two
  entries are equal: \<open>f_history[k-1] = f_history[k-2] = f(x0, y[0])\<close>. Slot \<open>k-1\<close> is a
  scratch copy between steps: the corrector's result does not depend on it, and neither
  does the result of the next call of the step driver, which overwrites it first. The
  same holds again after that next call (here with any \<open>f'\<close>, \<open>y'\<close>, \<open>x0'\<close>, \<open>h'\<close>), hence
  after every later one.
\<close>

theorem Adams_Steps_last_two_slots:
  assumes "length f_history = STEPS c" and "2 \<le> STEPS c"
  shows "let new = sr_f_history (Adams_Steps c f y x0 h f_history tolerance iterations);
             next = sr_f_history (Adams_Steps c f' y' x0' h' new tolerance' iterations')
         in new ! (STEPS c - 1) = f x0 (fst y) \<and> new ! (STEPS c - 2) = f x0 (fst y)
            \<and> length new = STEPS c
            \<and> Adams_Moulton_Steps c f' y' x0' h' (new[STEPS c - 1 := v]) tolerance' iterations' =
                Adams_Moulton_Steps c f' y' x0' h' new tolerance' iterations'
            \<and> Adams_Steps c f' y' x0' h' (new[STEPS c - 1 := v]) tolerance' iterations' =
                Adams_Steps c f' y' x0' h' new tolerance' iterations'
            \<and> next ! (STEPS c - 1) = f' x0' (fst y') \<and> next ! (STEPS c - 2) = f' x0' (fst y')
            \<and> length next = STEPS c"
proof -
  let ?new = "sr_f_history (Adams_Steps c f y x0 h f_history tolerance iterations)"
  let ?next = "sr_f_history (Adams_Steps c f' y' x0' h' ?new tolerance' iterations')"
  have len: "length ?new = STEPS c"
    using assms(1) by (simp add: Adams_Steps_history_length)
  then have len': "length ?next = STEPS c"
    by (simp add: Adams_Steps_history_length)
  have ar: "STEPS c - 2 < STEPS c" "\<not> STEPS c - 2 + 2 < STEPS c"
           "STEPS c - 1 < STEPS c" "\<not> STEPS c - 1 + 2 < STEPS c"
    using assms(2) by linarith+
  have a: "?new ! (STEPS c - 1) = f x0 (fst y)" "?new ! (STEPS c - 2) = f x0 (fst y)"
    using assms(1) ar by (simp_all only: Adams_Steps_history_nth if_False)
  have b: "?next ! (STEPS c - 1) = f' x0' (fst y')" "?next ! (STEPS c - 2) = f' x0' (fst y')"
    using len ar by (simp_all only: Adams_Steps_history_nth if_False)
  show ?thesis
    unfolding Let_def
    by (intro conjI a b len len' Moulton_Steps_ignores_last Adams_Steps_ignores_last)
qed

theorem Adams_Steps_last_two_slots_witness:
  "let H = [1, 2, 3, 4, 5, 6, 7, 8, 9, 10, 11, 12 :: real];
       new = sr_f_history (Adams_12_Steps (\<lambda>x y. x + y) (4, 0) 3 1 H 1 1)
   in length H = STEPS coeffs_12 \<and> 2 \<le> STEPS coeffs_12
      \<and> new ! 11 = 7 \<and> new ! 10 = 7 \<and> H ! 11 = 12 \<and> length new = 12"
proof -
  let ?H = "[1, 2, 3, 4, 5, 6, 7, 8, 9, 10, 11, 12 :: real]"
  let ?new = "sr_f_history (Adams_Steps coeffs_12 (\<lambda>x y. x + y) (4, 0) 3 1 ?H 1 1)"
  have l: "length ?H = STEPS coeffs_12" and k: "2 \<le> STEPS coeffs_12"
    by (simp_all add: STEPS_tables)
  note T = Adams_Steps_last_two_slots[OF l k, where f = "\<lambda>x y. x + y" and y = "(4, 0)"
      and ?x0.0 = 3 and h = 1 and tolerance = 1 and iterations = 1, unfolded Let_def STEPS_tables]
  have n11: "?new ! (12 - 1) = 3 + fst (4 :: real, 0 :: real)"
    by (rule T[THEN conjunct1])
  have n10: "?new ! (12 - 2) = 3 + fst (4 :: real, 0 :: real)"
    by (rule T[THEN conjunct2, THEN conjunct1])
  have len: "length ?new = 12"
    by (rule T[THEN conjunct2, THEN conjunct2, THEN conjunct1])
  show ?thesis
    unfolding Let_def Adams_12_Steps_def
    using l k len n10 n11 by simp
qed

end
